theory Spec2Isabelle
  imports Main
begin

section \<open>JavaScript values and string primitives\<close>

text \<open>
  The service is written in JavaScript. Strings are modelled as \<open>string\<close> (lists of
  characters); every literal of the source is ASCII. A thrown \<open>Error\<close> object is a
  value of \<open>js_error\<close> carrying its message, and a call that may throw returns
  \<open>js_error + 'a\<close> with \<open>Inl\<close> for the exception.
\<close>

datatype js_error = Error string

fun error_message :: "js_error \<Rightarrow> string" where
  "error_message (Error m) = m"

text \<open>\<open>String.prototype.startsWith\<close>, \<open>includes\<close> and the split of a string at the
  first occurrence of a pattern (what \<open>indexOf\<close> finds).\<close>

fun js_startsWith :: "string \<Rightarrow> string \<Rightarrow> bool" where
  "js_startsWith s [] = True"
| "js_startsWith [] (p # ps) = False"
| "js_startsWith (c # cs) (p # ps) = (c = p \<and> js_startsWith cs ps)"

fun js_includes :: "string \<Rightarrow> string \<Rightarrow> bool" where
  "js_includes [] pat = (pat = [])"
| "js_includes (c # cs) pat = (js_startsWith (c # cs) pat \<or> js_includes cs pat)"

fun split_first :: "string \<Rightarrow> string \<Rightarrow> (string \<times> string) option" where
  "split_first [] pat = (if pat = [] then Some ([], []) else None)"
| "split_first (c # cs) pat =
     (if js_startsWith (c # cs) pat then Some ([], drop (length pat) (c # cs))
      else map_option (\<lambda>(pre, post). (c # pre, post)) (split_first cs pat))"

text \<open>
  \<open>String.prototype.replace(pattern, replacement)\<close> with a string pattern replaces the
  first occurrence only, and expands the replacement text first (ECMAScript
  GetSubstitution): \<open>$$\<close> is a dollar sign, \<open>$&\<close> the matched text, \<open>$`\<close> the text before
  the match and \<open>$'\<close> the text after it. A string pattern has no capture groups, so
  \<open>$1\<close> and \<open>$<name>\<close> stay as they are written.
\<close>

fun get_substitution :: "string \<Rightarrow> string \<Rightarrow> string \<Rightarrow> string \<Rightarrow> string" where
  "get_substitution matched pre post [] = []"
| "get_substitution matched pre post [c] = [c]"
| "get_substitution matched pre post (c # d # r) =
     (if c = CHR ''$'' then
        (if d = CHR ''$'' then CHR ''$'' # get_substitution matched pre post r
         else if d = CHR ''&'' then matched @ get_substitution matched pre post r
         else if d = CHR 0x60 then pre @ get_substitution matched pre post r
         else if d = CHR 0x27 then post @ get_substitution matched pre post r
         else c # get_substitution matched pre post (d # r))
      else c # get_substitution matched pre post (d # r))"

definition js_replace :: "string \<Rightarrow> string \<Rightarrow> string \<Rightarrow> string" where
  "js_replace s pat replacement =
     (case split_first s pat of
        None \<Rightarrow> s
      | Some (pre, post) \<Rightarrow> pre @ get_substitution pat pre post replacement @ post)"

text \<open>\<open>Array.prototype.join\<close> on an array of strings, and \<open>String.prototype.trim\<close>.
  \<open>js_trim\<close> strips the ASCII white space characters (tab, line feed, vertical tab,
  form feed, carriage return, space). JavaScript's \<open>trim\<close> strips the Unicode spaces and
  line terminators as well (U+00A0, U+FEFF, U+2028, U+2029 and the other space
  separators); they are outside this model of strings, and every text that is trimmed
  below with a known beginning and end is ASCII.\<close>

fun js_join :: "string \<Rightarrow> string list \<Rightarrow> string" where
  "js_join sep [] = []"
| "js_join sep [x] = x"
| "js_join sep (x # y # ys) = x @ sep @ js_join sep (y # ys)"

definition is_white_space :: "char \<Rightarrow> bool" where
  "is_white_space c = (c \<in> {CHR 0x09, CHR 0x0A, CHR 0x0B, CHR 0x0C, CHR 0x0D, CHR 0x20})"

definition js_trim :: "string \<Rightarrow> string" where
  "js_trim s = rev (dropWhile is_white_space (rev (dropWhile is_white_space s)))"

text \<open>The decimal text of a non-negative integer, as a template literal prints an
  array length.\<close>

definition digit_char :: "nat \<Rightarrow> char" where
  "digit_char d = ''0123456789'' ! d"

function number_toString :: "nat \<Rightarrow> string" where
  "number_toString n =
     (if n < 10 then [digit_char n]
      else number_toString (n div 10) @ [digit_char (n mod 10)])"
  by pat_completeness auto
termination
  by (relation "measure id") auto

text \<open>\<open>[...new Set(xs)]\<close>: a \<open>Set\<close> keeps insertion order, and adding a value that is
  already a member changes nothing.\<close>

definition set_add :: "'a list \<Rightarrow> 'a \<Rightarrow> 'a list" where
  "set_add members x = (if x \<in> set members then members else members @ [x])"

definition new_Set :: "'a list \<Rightarrow> 'a list" where
  "new_Set xs = foldl set_add [] xs"

text \<open>
  A property read \<open>obj[key]\<close> on an object literal finds the object's own entry, or
  else a member inherited from \<open>Object.prototype\<close>, or else \<open>undefined\<close>. The inherited
  members are functions, and \<open>__proto__\<close> is the prototype object itself: all of them
  are truthy.
\<close>

definition object_prototype_keys :: "string list" where
  "object_prototype_keys =
     [''constructor'', ''__defineGetter__'', ''__defineSetter__'', ''hasOwnProperty'',
      ''__lookupGetter__'', ''__lookupSetter__'', ''isPrototypeOf'',
      ''propertyIsEnumerable'', ''toString'', ''valueOf'', ''__proto__'',
      ''toLocaleString'']"

datatype 'a js_property = Own 'a | Inherited string | Undefined

definition js_get :: "(string \<times> 'a) list \<Rightarrow> string \<Rightarrow> 'a js_property" where
  "js_get obj key =
     (case map_of obj key of
        Some v \<Rightarrow> Own v
      | None \<Rightarrow> if key \<in> set object_prototype_keys then Inherited key else Undefined)"

text \<open>How a template literal prints an inherited member (V8's text of a native
  function) and \<open>undefined\<close>.\<close>

definition inherited_text :: "string \<Rightarrow> string" where
  "inherited_text key =
     (if key = ''__proto__'' then ''[object Object]''
      else ''function '' @ (if key = ''constructor'' then ''Object'' else key)
             @ ''() { [native code] }'')"

section \<open>Generation pipeline (generator.js)\<close>

record recommendation =
  rec_type :: string
  rec_title :: string
  rec_description :: string

text \<open>\<open>business_info\<close> of an analysis result. The request schema requires \<open>name\<close>,
  \<open>business_type\<close> and \<open>industry\<close>; the other fields may be absent or \<open>null\<close>
  (\<open>None\<close>).\<close>

record businessInfo =
  bi_name :: string
  bi_business_type :: string
  bi_industry :: string
  bi_services :: "string list option"
  bi_description :: "string option"
  bi_location :: "string option"
  bi_phone :: "string option"

record palette =
  primary :: string
  secondary :: string
  accent :: string

text \<open>Truthiness: a string is truthy unless empty, an object always, \<open>null\<close> and
  \<open>undefined\<close> never.\<close>

definition truthy_string :: "string option \<Rightarrow> bool" where
  "truthy_string v = (case v of None \<Rightarrow> False | Some s \<Rightarrow> s \<noteq> [])"

definition or_empty :: "string option \<Rightarrow> string" where
  "or_empty v = (if truthy_string v then the v else [])"

fun truthy_text :: "string js_property \<Rightarrow> bool" where
  "truthy_text (Own s) = (s \<noteq> [])"
| "truthy_text (Inherited k) = True"
| "truthy_text Undefined = False"

fun truthy_object :: "'a js_property \<Rightarrow> bool" where
  "truthy_object (Own v) = True"
| "truthy_object (Inherited k) = True"
| "truthy_object Undefined = False"

fun to_text :: "string js_property \<Rightarrow> string" where
  "to_text (Own s) = s"
| "to_text (Inherited k) = inherited_text k"
| "to_text Undefined = ''undefined''"

subsection \<open>The industry catalog\<close>
definition template_home_services :: string where
  \<open>template_home_services =
     ''\<newline>'' @
     ''- Emphasize trust and reliability with reviews/testimonials\<newline>'' @
     ''- Include service area coverage map\<newline>'' @
     ''- Feature emergency contact prominently\<newline>'' @
     ''- Add before/after photos or service galleries\<newline>'' @
     ''- Include licensing/insurance information''\<close>

definition template_healthcare :: string where
  \<open>template_healthcare =
     ''\<newline>'' @
     ''- Emphasize professionalism and trust\<newline>'' @
     ''- Include practitioner credentials and certifications\<newline>'' @
     ''- Feature patient testimonials (anonymized)\<newline>'' @
     ''- Add online appointment booking\<newline>'' @
     ''- Include office hours and location prominently''\<close>

definition template_food_and_beverage :: string where
  \<open>template_food_and_beverage =
     ''\<newline>'' @
     ''- Showcase menu highlights with appetizing descriptions\<newline>'' @
     ''- Include high-quality food photography placeholders\<newline>'' @
     ''- Feature customer reviews and ratings\<newline>'' @
     ''- Add online ordering or reservation system\<newline>'' @
     ''- Include location, hours, and delivery info''\<close>

definition template_automotive :: string where
  \<open>template_automotive =
     ''\<newline>'' @
     ''- Emphasize expertise and certifications\<newline>'' @
     ''- Include service guarantees and warranties\<newline>'' @
     ''- Feature customer testimonials\<newline>'' @
     ''- Add service appointment booking\<newline>'' @
     ''- Include accepted insurance and payment methods''\<close>

definition template_beauty_and_wellness :: string where
  \<open>template_beauty_and_wellness =
     ''\<newline>'' @
     ''- Showcase services with before/after examples\<newline>'' @
     ''- Include practitioner credentials and specialties\<newline>'' @
     ''- Feature client transformations and testimonials\<newline>'' @
     ''- Add online booking system\<newline>'' @
     ''- Include pricing and package information''\<close>

definition template_professional_services :: string where
  \<open>template_professional_services =
     ''\<newline>'' @
     ''- Emphasize expertise and credentials\<newline>'' @
     ''- Include case studies or success stories\<newline>'' @
     ''- Feature client testimonials\<newline>'' @
     ''- Add consultation booking\<newline>'' @
     ''- Include clear service descriptions and pricing''\<close>

definition template_retail :: string where
  \<open>template_retail =
     ''\<newline>'' @
     ''- Showcase product highlights with images\<newline>'' @
     ''- Include customer reviews and ratings\<newline>'' @
     ''- Feature special offers and promotions\<newline>'' @
     ''- Add online shopping or catalog\<newline>'' @
     ''- Include store location and hours''\<close>

definition template_default :: string where
  \<open>template_default =
     ''\<newline>'' @
     ''- Focus on clear value proposition\<newline>'' @
     ''- Include customer testimonials\<newline>'' @
     ''- Feature key services prominently\<newline>'' @
     ''- Add clear contact methods\<newline>'' @
     ''- Include business credentials and trust signals''\<close>

definition templates :: "(string \<times> string) list" where
  "templates =
     [(''home_services'', template_home_services),
      (''healthcare'', template_healthcare),
      (''food_and_beverage'', template_food_and_beverage),
      (''automotive'', template_automotive),
      (''beauty_and_wellness'', template_beauty_and_wellness),
      (''professional_services'', template_professional_services),
      (''retail'', template_retail),
      (''default'', template_default)]"

text \<open>\<open>_getIndustryTemplate\<close>: \<open>templates[industry] || templates.default\<close>. The second
  argument is not used by the source.\<close>

definition getIndustryTemplate :: "string \<Rightarrow> string \<Rightarrow> string js_property" where
  "getIndustryTemplate industry businessType =
     (let found = js_get templates industry
      in if truthy_text found then found else js_get templates ''default'')"

definition industryColors :: "(string \<times> palette) list" where
  "industryColors =
     [(''healthcare'', \<lparr>primary = ''#10B981'', secondary = ''#059669'', accent = ''#3B82F6''\<rparr>),
      (''food_and_beverage'', \<lparr>primary = ''#F59E0B'', secondary = ''#D97706'', accent = ''#EF4444''\<rparr>),
      (''home_services'', \<lparr>primary = ''#3B82F6'', secondary = ''#1E40AF'', accent = ''#F59E0B''\<rparr>),
      (''automotive'', \<lparr>primary = ''#DC2626'', secondary = ''#B91C1C'', accent = ''#374151''\<rparr>),
      (''beauty_and_wellness'', \<lparr>primary = ''#EC4899'', secondary = ''#DB2777'', accent = ''#8B5CF6''\<rparr>),
      (''professional_services'', \<lparr>primary = ''#1F2937'', secondary = ''#111827'', accent = ''#3B82F6''\<rparr>),
      (''default'', \<lparr>primary = ''#3B82F6'', secondary = ''#1E40AF'', accent = ''#10B981''\<rparr>)]"

text \<open>\<open>_getBaseColors\<close>: a truthy \<open>colorScheme\<close> gives the constant palette, whatever
  its value; otherwise \<open>industryColors[industry] || industryColors.default\<close>.\<close>

definition getBaseColors :: "string option \<Rightarrow> string \<Rightarrow> palette js_property" where
  "getBaseColors colorScheme industry =
     (if truthy_string colorScheme
      then Own \<lparr>primary = ''#3B82F6'', secondary = ''#1E40AF'', accent = ''#EF4444''\<rparr>
      else (let found = js_get industryColors industry
            in if truthy_object found then found else js_get industryColors ''default''))"

subsection \<open>Prompt construction\<close>

text \<open>\<open>_createHomepagePrompt\<close>. Reading a property of an absent \<open>businessInfo\<close> throws a
  \<open>TypeError\<close>; \<open>websiteContent\<close> is passed and never read.\<close>

definition recommendation_line :: "recommendation \<Rightarrow> string" where
  "recommendation_line r = ''- '' @ rec_title r @ '': '' @ rec_description r"

definition createHomepagePrompt ::
  "string \<Rightarrow> businessInfo option \<Rightarrow> recommendation list \<Rightarrow> 'w \<Rightarrow> string \<Rightarrow> bool \<Rightarrow> string option
     \<Rightarrow> js_error + string" where
  \<open>createHomepagePrompt businessName businessInfo recommendations websiteContent
       stylePreference includeBooking colorScheme =
     (case businessInfo of
        None \<Rightarrow> Inl (Error ''Cannot read properties of undefined (reading 'business_type')'')
      | Some info \<Rightarrow>
     (let businessType = bi_business_type info;
          industry = bi_industry info;
          services = (case bi_services info of None \<Rightarrow> [] | Some xs \<Rightarrow> xs);
          description = or_empty (bi_description info);
          location = or_empty (bi_location info);
          phone = or_empty (bi_phone info);
          topRecommendations = js_join ''\<newline>'' (map recommendation_line (take 3 recommendations));
          colorSchemeText =
            (if truthy_string colorScheme then ''Use this color scheme: '' @ the colorScheme else []);
          bookingText =
            (if includeBooking
             then ''Include a prominent "Book Appointment" or "Schedule Service" button with data-booking-btn attribute.''
             else []);
          templateGuidance = getIndustryTemplate industry businessType
      in Inr (
     ''\<newline>'' @
     ''Create a modern, professional homepage for this business:\<newline>'' @
     ''\<newline>'' @
     ''Business Information:\<newline>'' @
     ''- Name: '' @
     businessName @
     ''\<newline>'' @
     ''- Type: '' @
     businessType @
     ''\<newline>'' @
     ''- Industry: '' @
     industry @
     ''\<newline>'' @
     ''- Description: '' @
     description @
     ''\<newline>'' @
     ''- Location: '' @
     location @
     ''\<newline>'' @
     ''- Phone: '' @
     phone @
     ''\<newline>'' @
     ''- Services: '' @
     js_join '', '' services @
     ''\<newline>'' @
     ''\<newline>'' @
     ''Style Requirements:\<newline>'' @
     ''- Style: '' @
     stylePreference @
     ''\<newline>'' @
     ''- '' @
     colorSchemeText @
     ''\<newline>'' @
     ''- '' @
     bookingText @
     ''\<newline>'' @
     ''\<newline>'' @
     ''Key Improvements to Implement:\<newline>'' @
     topRecommendations @
     ''\<newline>'' @
     ''\<newline>'' @
     ''Industry-Specific Requirements:\<newline>'' @
     to_text templateGuidance @
     ''\<newline>'' @
     ''\<newline>'' @
     ''Requirements:\<newline>'' @
     ''1. Create a complete HTML page with Tailwind CSS\<newline>'' @
     ''2. Include these sections:\<newline>'' @
     ''   - Header with navigation and contact info\<newline>'' @
     ''   - Hero section with compelling headline and value proposition\<newline>'' @
     ''   - Services/features section with icons or images\<newline>'' @
     ''   - About/trust section with credibility indicators\<newline>'' @
     ''   - Contact section with form and map placeholder\<newline>'' @
     ''   - Footer with business details\<newline>'' @
     ''3. Make it mobile-responsive with proper breakpoints\<newline>'' @
     ''4. Use modern design principles and accessibility\<newline>'' @
     ''5. Include clear call-to-action buttons throughout\<newline>'' @
     ''6. Optimize for '' @
     businessType @
     '' businesses\<newline>'' @
     ''7. Include contact information: '' @
     phone @
     ''\<newline>'' @
     ''8. Add proper semantic HTML structure\<newline>'' @
     ''9. Include meta tags for SEO\<newline>'' @
     ''10. Use appropriate color psychology for '' @
     industry @
     ''\<newline>'' @
     ''\<newline>'' @
     ''Generate only the complete HTML code with embedded Tailwind CSS classes. No explanations.\<newline>'' @
     ''The code should be production-ready, visually appealing, and convert visitors to customers.\<newline>'')))\<close>

subsection \<open>Post-processing\<close>

text \<open>\<open>_generateCustomCSS\<close>: reads \<open>businessInfo.industry\<close> and \<open>businessInfo.name\<close>, and
  the three colors of the palette. A color read from an inherited member (a function)
  is \<open>undefined\<close>; a read from \<open>undefined\<close> itself would throw.\<close>

fun palette_field :: "(palette \<Rightarrow> string) \<Rightarrow> palette js_property \<Rightarrow> string" where
  "palette_field f (Own p) = f p"
| "palette_field f (Inherited k) = ''undefined''"
| "palette_field f Undefined = ''undefined''"

definition generateCustomCSS :: "businessInfo option \<Rightarrow> string \<Rightarrow> string option \<Rightarrow> js_error + string" where
  \<open>generateCustomCSS businessInfoArg stylePreference colorScheme =
     (case businessInfoArg of
        None \<Rightarrow> Inl (Error ''Cannot read properties of undefined (reading 'industry')'')
      | Some businessInfo \<Rightarrow>
     (let baseColors = getBaseColors colorScheme (bi_industry businessInfo)
      in if baseColors = Undefined
         then Inl (Error ''Cannot read properties of undefined (reading 'primary')'')
         else Inr (js_trim (
     ''\<newline>'' @
     ''/* Custom styles for '' @
     bi_name businessInfo @
     '' */\<newline>'' @
     '':root {\<newline>'' @
     ''    --primary-color: '' @
     palette_field primary baseColors @
     '';\<newline>'' @
     ''    --secondary-color: '' @
     palette_field secondary baseColors @
     '';\<newline>'' @
     ''    --accent-color: '' @
     palette_field accent baseColors @
     '';\<newline>'' @
     ''}\<newline>'' @
     ''\<newline>'' @
     ''.custom-hero-bg {\<newline>'' @
     ''    background: linear-gradient(135deg, var(--primary-color) 0%, var(--secondary-color) 100%);\<newline>'' @
     ''}\<newline>'' @
     ''\<newline>'' @
     ''.custom-card-hover {\<newline>'' @
     ''    transition: transform 0.3s ease, box-shadow 0.3s ease;\<newline>'' @
     ''}\<newline>'' @
     ''\<newline>'' @
     ''.custom-card-hover:hover {\<newline>'' @
     ''    transform: translateY(-4px);\<newline>'' @
     ''    box-shadow: 0 10px 25px rgba(0, 0, 0, 0.15);\<newline>'' @
     ''}\<newline>'' @
     ''\<newline>'' @
     ''.custom-btn-primary {\<newline>'' @
     ''    background-color: var(--accent-color);\<newline>'' @
     ''    transition: all 0.3s ease;\<newline>'' @
     ''}\<newline>'' @
     ''\<newline>'' @
     ''.custom-btn-primary:hover {\<newline>'' @
     ''    filter: brightness(1.1);\<newline>'' @
     ''    transform: translateY(-1px);\<newline>'' @
     ''}\<newline>'' @
     ''\<newline>'' @
     ''@media (max-width: 768px) {\<newline>'' @
     ''    .custom-hero-text {\<newline>'' @
     ''        font-size: 2rem;\<newline>'' @
     ''    }\<newline>'' @
     ''}\<newline>''))))\<close>

text \<open>\<open>_generateBookingJS\<close>: a constant script.\<close>

definition generateBookingJS :: string where
  \<open>generateBookingJS = js_trim (
     ''\<newline>'' @
     ''// Simple booking functionality\<newline>'' @
     ''function openBookingModal() {\<newline>'' @
     ''    // In a real implementation, this would open a booking widget\<newline>'' @
     ''    alert('Booking functionality would be integrated here. This could connect to Calendly, Acuity, or a custom booking system.');\<newline>'' @
     ''}\<newline>'' @
     ''\<newline>'' @
     ''// Add event listeners when DOM is loaded\<newline>'' @
     ''document.addEventListener('DOMContentLoaded', function() {\<newline>'' @
     ''    const bookingButtons = document.querySelectorAll('[data-booking-btn]');\<newline>'' @
     ''    bookingButtons.forEach(button => {\<newline>'' @
     ''        button.addEventListener('click', openBookingModal);\<newline>'' @
     ''    });\<newline>'' @
     ''});\<newline>'')\<close>

text \<open>\<open>_determineFeaturesIncluded\<close>: the array \<open>features\<close> grows by \<open>push\<close>.\<close>

definition push :: "'a list \<Rightarrow> 'a list \<Rightarrow> 'a list" where
  "push arr items = arr @ items"

definition determineFeaturesIncluded :: "recommendation list \<Rightarrow> bool \<Rightarrow> string \<Rightarrow> string list" where
  "determineFeaturesIncluded recommendations includeBooking stylePreference =
     (let features = [''responsive_design'', ''modern_layout''];
          features = (if stylePreference = ''modern''
                      then push features [''modern_typography'', ''gradient_backgrounds'']
                      else features);
          recTypes = map rec_type recommendations;
          features = (if ''mobile_optimization'' \<in> set recTypes
                      then push features [''mobile_optimized''] else features);
          features = (if ''seo_optimization'' \<in> set recTypes
                      then push features [''seo_optimized''] else features);
          features = (if ''conversion_optimization'' \<in> set recTypes
                      then push features [''conversion_optimized''] else features);
          features = (if includeBooking then push features [''booking_integration''] else features)
      in push features [''call_to_action'', ''contact_section'', ''services_showcase''])"

text \<open>\<open>_generateImprovementDescription\<close>: the \<open>switch\<close> on the recommendation type,
  then the sentence built by \<open>+=\<close>.\<close>

definition improvement_phrase :: "string \<Rightarrow> string" where
  "improvement_phrase t =
     (if t = ''design_improvement'' then ''modern design''
      else if t = ''mobile_optimization'' then ''mobile optimization''
      else if t = ''seo_optimization'' then ''SEO optimization''
      else if t = ''conversion_optimization'' then ''conversion optimization''
      else if t = ''performance_boost'' then ''performance improvements''
      else ''website enhancement'')"

definition generateImprovementDescription :: "recommendation list \<Rightarrow> string list \<Rightarrow> string" where
  "generateImprovementDescription recommendations featuresIncluded =
     (let numRecommendations = length recommendations;
          numFeatures = length featuresIncluded;
          description = ''Implemented '' @ number_toString numRecommendations
                          @ '' key improvements including '';
          improvementTypes = map (\<lambda>r. improvement_phrase (rec_type r)) recommendations;
          uniqueTypes = new_Set improvementTypes;
          description = description @ js_join '', '' (take 3 uniqueTypes);
          description = (if length uniqueTypes > 3
                         then description @ '', and '' @ number_toString (length uniqueTypes - 3)
                                @ '' other improvements''
                         else description)
      in description @ ''. Features '' @ number_toString numFeatures
           @ '' modern web components for enhanced user experience and business growth.'')"

section \<open>Render engine (screenshot.js)\<close>

subsection \<open>Building the document\<close>

text \<open>\<open>_createCompleteHtml\<close>. A document that already has a doctype or an \<open>html\<close> tag gets
  the style block through \<open>String.prototype.replace\<close>; any other text is wrapped in
  the boilerplate document.\<close>

definition createCompleteHtml :: "string \<Rightarrow> string \<Rightarrow> string" where
  \<open>createCompleteHtml htmlContent cssContent =
     (if js_includes htmlContent ''<!DOCTYPE html>'' \<or> js_includes htmlContent ''<html'' then
        (if cssContent \<noteq> [] then
           (if js_includes htmlContent ''</head>''
            then js_replace htmlContent ''</head>'' (''<style>'' @ cssContent @ ''</style></head>'')
            else js_replace htmlContent ''<html''
                   (''<html><head><style>'' @ cssContent @ ''</style></head><html''))
         else htmlContent)
      else
     ''\<newline>'' @
     ''<!DOCTYPE html>\<newline>'' @
     ''<html lang="en">\<newline>'' @
     ''<head>\<newline>'' @
     ''    <meta charset="UTF-8">\<newline>'' @
     ''    <meta name="viewport" content="width=device-width, initial-scale=1.0">\<newline>'' @
     ''    <title>Generated Homepage</title>\<newline>'' @
     ''    '' @
     (if cssContent \<noteq> [] then ''<style>'' @ cssContent @ ''</style>'' else []) @
     ''\<newline>'' @
     ''    <link href="https://cdn.jsdelivr.net/npm/tailwindcss@2.2.19/dist/tailwind.min.css" rel="stylesheet">\<newline>'' @
     ''</head>\<newline>'' @
     ''<body>\<newline>'' @
     ''    '' @
     htmlContent @
     ''\<newline>'' @
     ''</body>\<newline>'' @
     ''</html>'')\<close>

subsection \<open>The service and the browser it drives\<close>

text \<open>
  The service object holds the browser handle (\<open>null\<close> is \<open>None\<close>) and a flag. The
  browser is the environment: what each call to it answers is an input of the model.
  \<open>launch\<close> answers with a browser handle or throws; a page has one answer for each
  of its methods. The pages a call opens and closes are recorded as events.
\<close>

record ScreenshotService =
  browser :: "nat option"
  isInitialized :: bool


record screenshot_options =
  opt_width :: "nat option"
  opt_height :: "nat option"
  opt_deviceScaleFactor :: "nat option"
  opt_fullPage :: "bool option"
  opt_format :: "string option"
  opt_quality :: "nat option"

record viewport =
  vp_width :: nat
  vp_height :: nat
  vp_deviceScaleFactor :: nat

record page_screenshot_options =
  shot_type :: string
  shot_fullPage :: bool
  shot_quality :: "nat option"

record 'buf page_env =
  newPage :: "js_error + nat"
  setViewport :: "viewport \<Rightarrow> js_error + unit"
  setContent :: "string \<Rightarrow> nat \<Rightarrow> js_error + unit"
  waitForTimeout :: "nat \<Rightarrow> js_error + unit"
  screenshot :: "page_screenshot_options \<Rightarrow> js_error + 'buf"
  page_close :: "js_error + unit"

datatype engine_event = PageOpened nat | PageClosed nat

fun apply_event :: "nat list \<Rightarrow> engine_event \<Rightarrow> nat list" where
  "apply_event pages (PageOpened p) = p # pages"
| "apply_event pages (PageClosed p) = remove1 p pages"

definition open_pages_after :: "engine_event list \<Rightarrow> nat list \<Rightarrow> nat list" where
  "open_pages_after events pages = foldl apply_event pages events"

fun pages_opened :: "engine_event list \<Rightarrow> nat list" where
  "pages_opened [] = []"
| "pages_opened (PageOpened p # es) = p # pages_opened es"
| "pages_opened (PageClosed p # es) = pages_opened es"






subsection \<open>Capture\<close>

definition not_initialized :: js_error where
  "not_initialized = Error ''Screenshot service not initialized''"

definition or_default :: "'a option \<Rightarrow> 'a \<Rightarrow> 'a" where
  "or_default v d = (case v of None \<Rightarrow> d | Some x \<Rightarrow> x)"

text \<open>\<open>generateScreenshot\<close>: the guard, then \<open>try\<close> / \<open>catch\<close> (log and rethrow) /
  \<open>finally\<close> (close the page if one was opened). An exception thrown by the close in
  \<open>finally\<close> replaces the pending result.\<close>

definition generateScreenshot ::
  "'buf page_env \<Rightarrow> ScreenshotService \<Rightarrow> string \<Rightarrow> string \<Rightarrow> screenshot_options
     \<Rightarrow> (js_error + 'buf) \<times> engine_event list" where
  "generateScreenshot env s htmlContent cssContent options =
     (if \<not> isInitialized s \<or> browser s = None then (Inl not_initialized, [])
      else
        (let width = or_default (opt_width options) 1200;
             height = or_default (opt_height options) 800;
             deviceScaleFactor = or_default (opt_deviceScaleFactor options) 1;
             fullPage = or_default (opt_fullPage options) True;
             format = or_default (opt_format options) ''png'';
             quality = or_default (opt_quality options) 90
         in case newPage env of
              Inl e \<Rightarrow> (Inl e, [])
            | Inr page \<Rightarrow>
                (let attempt =
                   (case setViewport env \<lparr>vp_width = width, vp_height = height,
                                           vp_deviceScaleFactor = deviceScaleFactor\<rparr> of
                      Inl e \<Rightarrow> Inl e
                    | Inr u \<Rightarrow>
                   (case setContent env (createCompleteHtml htmlContent cssContent) 30000 of
                      Inl e \<Rightarrow> Inl e
                    | Inr u \<Rightarrow>
                   (case waitForTimeout env 1000 of
                      Inl e \<Rightarrow> Inl e
                    | Inr u \<Rightarrow>
                        screenshot env \<lparr>shot_type = format, shot_fullPage = fullPage,
                                        shot_quality = (if format = ''jpeg'' then Some quality else None)\<rparr>)))
                 in case page_close env of
                      Inl e \<Rightarrow> (Inl e, [PageOpened page])
                    | Inr u \<Rightarrow> (attempt, [PageOpened page, PageClosed page]))))"

text \<open>\<open>generateScreenshotDataUrl\<close>: \<open>encode\<close> is \<open>Buffer.toString('base64')\<close>.\<close>

definition generateScreenshotDataUrl ::
  "('buf \<Rightarrow> string) \<Rightarrow> 'buf page_env \<Rightarrow> ScreenshotService \<Rightarrow> string \<Rightarrow> string
     \<Rightarrow> screenshot_options \<Rightarrow> (js_error + string) \<times> engine_event list" where
  "generateScreenshotDataUrl encode env s htmlContent cssContent options =
     (case generateScreenshot env s htmlContent cssContent options of
        (Inl e, events) \<Rightarrow> (Inl e, events)
      | (Inr shot, events) \<Rightarrow>
          (let format = (if truthy_string (opt_format options) then the (opt_format options)
                         else ''png'');
               base64 = encode shot
           in (Inr (''data:image/'' @ format @ '';base64,'' @ base64), events)))"

text \<open>\<open>generateResponsiveScreenshots\<close>: the loop over the entries of \<open>viewports\<close>, each
  capture in its own \<open>try\<close>; \<open>screenshots[device] = ...\<close> is an assignment to an
  object that keeps its keys in insertion order. The environment gives each device's
  capture its own page.\<close>

definition viewports :: "(string \<times> viewport) list" where
  "viewports =
     [(''desktop'', \<lparr>vp_width = 1200, vp_height = 800, vp_deviceScaleFactor = 1\<rparr>),
      (''tablet'', \<lparr>vp_width = 768, vp_height = 1024, vp_deviceScaleFactor = 2\<rparr>),
      (''mobile'', \<lparr>vp_width = 375, vp_height = 667, vp_deviceScaleFactor = 2\<rparr>)]"

definition viewport_options :: "viewport \<Rightarrow> screenshot_options" where
  "viewport_options v =
     \<lparr>opt_width = Some (vp_width v), opt_height = Some (vp_height v),
      opt_deviceScaleFactor = Some (vp_deviceScaleFactor v), opt_fullPage = Some False,
      opt_format = None, opt_quality = None\<rparr>"

fun object_set :: "(string \<times> 'v) list \<Rightarrow> string \<Rightarrow> 'v \<Rightarrow> (string \<times> 'v) list" where
  "object_set [] k v = [(k, v)]"
| "object_set ((k', v') # rest) k v =
     (if k' = k then (k, v) # rest else (k', v') # object_set rest k v)"

fun responsive_loop ::
  "('buf \<Rightarrow> string) \<Rightarrow> (string \<Rightarrow> 'buf page_env) \<Rightarrow> ScreenshotService \<Rightarrow> string \<Rightarrow> string
     \<Rightarrow> (string \<times> viewport) list \<Rightarrow> (string \<times> string option) list \<Rightarrow> engine_event list
     \<Rightarrow> (string \<times> string option) list \<times> engine_event list" where
  "responsive_loop encode envs s htmlContent cssContent [] screenshots events =
     (screenshots, events)"
| "responsive_loop encode envs s htmlContent cssContent ((device, v) # rest) screenshots events =
     (case generateScreenshotDataUrl encode (envs device) s htmlContent cssContent
             (viewport_options v) of
        (Inr url, evs) \<Rightarrow>
          responsive_loop encode envs s htmlContent cssContent rest
            (object_set screenshots device (Some url)) (events @ evs)
      | (Inl e, evs) \<Rightarrow>
          responsive_loop encode envs s htmlContent cssContent rest
            (object_set screenshots device None) (events @ evs))"

definition generateResponsiveScreenshots ::
  "('buf \<Rightarrow> string) \<Rightarrow> (string \<Rightarrow> 'buf page_env) \<Rightarrow> ScreenshotService \<Rightarrow> string \<Rightarrow> string
     \<Rightarrow> (js_error + (string \<times> string option) list) \<times> engine_event list" where
  "generateResponsiveScreenshots encode envs s htmlContent cssContent =
     (case responsive_loop encode envs s htmlContent cssContent viewports [] [] of
        (screenshots, events) \<Rightarrow> (Inr screenshots, events))"

subsection \<open>Sequences of calls on one service\<close>







section \<open>The generation pipeline as a whole\<close>

record 'w analysisResult =
  ar_business_info :: "businessInfo option"
  ar_recommendations :: "recommendation list option"
  ar_website_content :: 'w

text \<open>The argument object of \<open>generateHomepage\<close>: an absent \<open>stylePreference\<close>,
  \<open>includeBooking\<close> or \<open>colorScheme\<close> takes its default (\<open>'modern'\<close>, \<open>false\<close>,
  \<open>null\<close>).\<close>

record 'w generate_request =
  req_analysisResult :: "'w analysisResult"
  req_businessName :: string
  req_stylePreference :: "string option"
  req_includeBooking :: "bool option"
  req_colorScheme :: "string option"

text \<open>What the call reads from outside: the fresh identifier and the clock.\<close>

record generation_env =
  env_uuid :: string
  env_startTime :: int
  env_endTime :: int
  env_generated_at :: string

record homepage =
  hp_id :: string
  hp_business_name :: string
  hp_generated_at :: string
  hp_html_code :: string
  hp_css_code :: string
  hp_js_code :: "string option"
  hp_style_applied :: string
  hp_features_included :: "string list"
  hp_estimated_improvement :: string
  hp_generation_time :: int

text \<open>\<open>_generateHomepageCode\<close>: the prompt is built outside the \<open>try\<close>; \<open>complete\<close> is
  the completion provider's answer to the prompt (the text of the first choice, or an
  exception), and a failure is rethrown with a new message.\<close>

definition generateHomepageCode ::
  "(string \<Rightarrow> js_error + string) \<Rightarrow> string \<Rightarrow> businessInfo option \<Rightarrow> recommendation list \<Rightarrow> 'w
     \<Rightarrow> string \<Rightarrow> bool \<Rightarrow> string option \<Rightarrow> js_error + string" where
  "generateHomepageCode complete businessName businessInfo recommendations websiteContent
       stylePreference includeBooking colorScheme =
     (case createHomepagePrompt businessName businessInfo recommendations websiteContent
             stylePreference includeBooking colorScheme of
        Inl e \<Rightarrow> Inl e
      | Inr prompt \<Rightarrow>
          (case complete prompt of
             Inl e \<Rightarrow> Inl (Error (''Failed to generate homepage code: '' @ error_message e))
           | Inr content \<Rightarrow> Inr (js_trim content)))"

definition generateHomepage ::
  "generation_env \<Rightarrow> (string \<Rightarrow> js_error + string) \<Rightarrow> 'w generate_request \<Rightarrow> js_error + homepage" where
  "generateHomepage env complete request =
     (let analysis = req_analysisResult request;
          businessName = req_businessName request;
          stylePreference = or_default (req_stylePreference request) ''modern'';
          includeBooking = or_default (req_includeBooking request) False;
          colorScheme = req_colorScheme request;
          businessInfo = ar_business_info analysis;
          recommendations = or_default (ar_recommendations analysis) [];
          websiteContent = ar_website_content analysis;
          attempt =
            (case generateHomepageCode complete businessName businessInfo recommendations
                    websiteContent stylePreference includeBooking colorScheme of
               Inl e \<Rightarrow> Inl e
             | Inr homepageCode \<Rightarrow>
            (case generateCustomCSS businessInfo stylePreference colorScheme of
               Inl e \<Rightarrow> Inl e
             | Inr cssCode \<Rightarrow>
                 (let featuresIncluded =
                        determineFeaturesIncluded recommendations includeBooking stylePreference;
                      estimatedImprovement =
                        generateImprovementDescription recommendations featuresIncluded;
                      generationTime = env_endTime env - env_startTime env
                  in Inr \<lparr>hp_id = env_uuid env,
                          hp_business_name = businessName,
                          hp_generated_at = env_generated_at env,
                          hp_html_code = homepageCode,
                          hp_css_code = cssCode,
                          hp_js_code = (if includeBooking then Some generateBookingJS else None),
                          hp_style_applied = stylePreference,
                          hp_features_included = featuresIncluded,
                          hp_estimated_improvement = estimatedImprovement,
                          hp_generation_time = generationTime\<rparr>)))
      in case attempt of
           Inl e \<Rightarrow> Inl (Error (''Homepage generation failed: '' @ error_message e))
         | Inr result \<Rightarrow> Inr result)"

subsection \<open>Request validation (validation.js)\<close>

text \<open>
  The request schema accepts \<open>color_scheme\<close> when it is \<open>null\<close> or matches
  \<open>/^#[0-9A-Fa-f]{6}$/\<close> (\<open>hex_color\<close>). \<open>validateColorScheme\<close> accepts such a color,
  an \<open>rgb(r, g, b)\<close> text and, in any letter case, one of the seven names of
  \<open>namedSchemes\<close>. \<open>supplied_color_scheme\<close> is the specification's wording of a supplied
  value, a hex color or a named token as listed; it is not the set either validator
  accepts. What the two validators and this predicate have in common is that an
  accepted value is a text that is not empty, and the theorems about a supplied color
  scheme are proved for every text that is not empty.
\<close>

definition is_hex_digit :: "char \<Rightarrow> bool" where
  "is_hex_digit c = (c \<in> set ''0123456789ABCDEFabcdef'')"

definition hex_color :: "string \<Rightarrow> bool" where
  "hex_color c =
     (case c of
        [] \<Rightarrow> False
      | h # ds \<Rightarrow> h = CHR ''#'' \<and> length ds = 6 \<and> list_all is_hex_digit ds)"

definition namedSchemes :: "string list" where
  "namedSchemes = [''blue'', ''green'', ''red'', ''purple'', ''orange'', ''teal'', ''indigo'']"

definition supplied_color_scheme :: "string \<Rightarrow> bool" where
  "supplied_color_scheme c = (hex_color c \<or> c \<in> set namedSchemes)"

definition validated_color_scheme :: "string option \<Rightarrow> bool" where
  "validated_color_scheme cs = (case cs of None \<Rightarrow> True | Some c \<Rightarrow> supplied_color_scheme c)"

section \<open>The specification's reading of the operations\<close>

text \<open>
  The definitions of this section follow the words of the specification, to be compared
  with the functions above. The prompt is described as a sequence of sections: the
  business identity, the style requirements with the two optional clauses, the first
  three recommendations, the industry guidance, and the fixed list of requirements.
\<close>

definition field_or_empty :: "string option \<Rightarrow> string" where
  "field_or_empty v = (case v of None \<Rightarrow> [] | Some s \<Rightarrow> s)"

definition list_or_empty :: "string list option \<Rightarrow> string list" where
  "list_or_empty v = (case v of None \<Rightarrow> [] | Some xs \<Rightarrow> xs)"

definition first_three :: "'a list \<Rightarrow> 'a list" where
  "first_three xs = (case xs of a # b # c # rest \<Rightarrow> [a, b, c] | _ \<Rightarrow> xs)"

definition color_clause :: "string option \<Rightarrow> string" where
  "color_clause cs = (case cs of None \<Rightarrow> [] | Some c \<Rightarrow> ''Use this color scheme: '' @ c)"

definition booking_clause :: "bool \<Rightarrow> string" where
  \<open>booking_clause booking =
     (if booking
      then ''Include a prominent "Book Appointment" or "Schedule Service" button with data-booking-btn attribute.''
      else [])\<close>

definition prompt_opening :: "string" where
  \<open>prompt_opening =
     ''\<newline>'' @
     ''Create a modern, professional homepage for this business:\<newline>'' @
     ''\<newline>''\<close>

definition identity_section :: "string \<Rightarrow> businessInfo \<Rightarrow> string" where
  \<open>identity_section name info =
     ''Business Information:\<newline>'' @
     ''- Name: '' @
     name @
     ''\<newline>'' @
     ''- Type: '' @
     bi_business_type info @
     ''\<newline>'' @
     ''- Industry: '' @
     bi_industry info @
     ''\<newline>'' @
     ''- Description: '' @
     field_or_empty (bi_description info) @
     ''\<newline>'' @
     ''- Location: '' @
     field_or_empty (bi_location info) @
     ''\<newline>'' @
     ''- Phone: '' @
     field_or_empty (bi_phone info) @
     ''\<newline>'' @
     ''- Services: '' @
     js_join '', '' (list_or_empty (bi_services info)) @
     ''\<newline>'' @
     ''\<newline>''\<close>

definition style_section :: "string \<Rightarrow> string option \<Rightarrow> bool \<Rightarrow> string" where
  \<open>style_section style cs booking =
     ''Style Requirements:\<newline>'' @
     ''- Style: '' @
     style @
     ''\<newline>'' @
     ''- '' @
     color_clause cs @
     ''\<newline>'' @
     ''- '' @
     booking_clause booking @
     ''\<newline>'' @
     ''\<newline>''\<close>

definition improvements_section :: "recommendation list \<Rightarrow> string" where
  \<open>improvements_section recs =
     ''Key Improvements to Implement:\<newline>'' @
     js_join ''\<newline>'' (map recommendation_line (first_three recs)) @
     ''\<newline>'' @
     ''\<newline>''\<close>

definition guidance_section :: "businessInfo \<Rightarrow> string" where
  \<open>guidance_section info =
     ''Industry-Specific Requirements:\<newline>'' @
     to_text (getIndustryTemplate (bi_industry info) (bi_business_type info)) @
     ''\<newline>'' @
     ''\<newline>''\<close>

definition requirements_section :: "businessInfo \<Rightarrow> string" where
  \<open>requirements_section info =
     ''Requirements:\<newline>'' @
     ''1. Create a complete HTML page with Tailwind CSS\<newline>'' @
     ''2. Include these sections:\<newline>'' @
     ''   - Header with navigation and contact info\<newline>'' @
     ''   - Hero section with compelling headline and value proposition\<newline>'' @
     ''   - Services/features section with icons or images\<newline>'' @
     ''   - About/trust section with credibility indicators\<newline>'' @
     ''   - Contact section with form and map placeholder\<newline>'' @
     ''   - Footer with business details\<newline>'' @
     ''3. Make it mobile-responsive with proper breakpoints\<newline>'' @
     ''4. Use modern design principles and accessibility\<newline>'' @
     ''5. Include clear call-to-action buttons throughout\<newline>'' @
     ''6. Optimize for '' @
     bi_business_type info @
     '' businesses\<newline>'' @
     ''7. Include contact information: '' @
     field_or_empty (bi_phone info) @
     ''\<newline>'' @
     ''8. Add proper semantic HTML structure\<newline>'' @
     ''9. Include meta tags for SEO\<newline>'' @
     ''10. Use appropriate color psychology for '' @
     bi_industry info @
     ''\<newline>'' @
     ''\<newline>'' @
     ''Generate only the complete HTML code with embedded Tailwind CSS classes. No explanations.\<newline>'' @
     ''The code should be production-ready, visually appealing, and convert visitors to customers.\<newline>''\<close>

definition spec_prompt ::
  "string \<Rightarrow> businessInfo \<Rightarrow> recommendation list \<Rightarrow> string \<Rightarrow> bool \<Rightarrow> string option \<Rightarrow> string" where
  "spec_prompt name info recs style booking cs =
     prompt_opening @ identity_section name info @ style_section style cs booking
       @ improvements_section recs @ guidance_section info @ requirements_section info"

text \<open>The replacement patterns of \<open>String.prototype.replace\<close> that a string pattern
  expands.\<close>

fun has_replacement_pattern :: "string \<Rightarrow> bool" where
  "has_replacement_pattern [] = False"
| "has_replacement_pattern [c] = False"
| "has_replacement_pattern (c # d # r) =
     ((c = CHR ''$'' \<and> d \<in> {CHR ''$'', CHR ''&'', CHR 0x60, CHR 0x27})
      \<or> has_replacement_pattern (d # r))"

text \<open>The custom style sheet: a comment naming the business, the three colors of the
  palette as CSS variables, and a fixed set of utility rules.\<close>

definition css_variable_block :: "string \<Rightarrow> string \<Rightarrow> string \<Rightarrow> string" where
  "css_variable_block p s a =
     '':root {\<newline>'' @
     ''    --primary-color: '' @ p @ '';\<newline>'' @
     ''    --secondary-color: '' @ s @ '';\<newline>'' @
     ''    --accent-color: '' @ a @ '';\<newline>'' @
     ''}''"

definition css_utility_rules :: string where
  \<open>css_utility_rules =
     ''\<newline>'' @
     ''\<newline>'' @
     ''.custom-hero-bg {\<newline>'' @
     ''    background: linear-gradient(135deg, var(--primary-color) 0%, var(--secondary-color) 100%);\<newline>'' @
     ''}\<newline>'' @
     ''\<newline>'' @
     ''.custom-card-hover {\<newline>'' @
     ''    transition: transform 0.3s ease, box-shadow 0.3s ease;\<newline>'' @
     ''}\<newline>'' @
     ''\<newline>'' @
     ''.custom-card-hover:hover {\<newline>'' @
     ''    transform: translateY(-4px);\<newline>'' @
     ''    box-shadow: 0 10px 25px rgba(0, 0, 0, 0.15);\<newline>'' @
     ''}\<newline>'' @
     ''\<newline>'' @
     ''.custom-btn-primary {\<newline>'' @
     ''    background-color: var(--accent-color);\<newline>'' @
     ''    transition: all 0.3s ease;\<newline>'' @
     ''}\<newline>'' @
     ''\<newline>'' @
     ''.custom-btn-primary:hover {\<newline>'' @
     ''    filter: brightness(1.1);\<newline>'' @
     ''    transform: translateY(-1px);\<newline>'' @
     ''}\<newline>'' @
     ''\<newline>'' @
     ''@media (max-width: 768px) {\<newline>'' @
     ''    .custom-hero-text {\<newline>'' @
     ''        font-size: 2rem;\<newline>'' @
     ''    }\<newline>'' @
     ''}''\<close>

definition custom_css :: "string \<Rightarrow> palette js_property \<Rightarrow> string" where
  "custom_css name colors =
     ''/* Custom styles for '' @ name @ '' */\<newline>''
     @ css_variable_block (palette_field primary colors) (palette_field secondary colors)
         (palette_field accent colors)
     @ css_utility_rules"

text \<open>The parts of the generated boilerplate document: what stands before the style
  block, the style block itself (present when there is a css), the link to the default
  utility style sheet, and the tags around the wrapped text.\<close>

definition document_head_open :: string where
  \<open>document_head_open =
     ''\<newline>'' @
     ''<!DOCTYPE html>\<newline>'' @
     ''<html lang="en">\<newline>'' @
     ''<head>\<newline>'' @
     ''    <meta charset="UTF-8">\<newline>'' @
     ''    <meta name="viewport" content="width=device-width, initial-scale=1.0">\<newline>'' @
     ''    <title>Generated Homepage</title>\<newline>'' @
     ''    ''\<close>

definition style_block :: "string \<Rightarrow> string" where
  "style_block css = (if css = [] then [] else ''<style>'' @ css @ ''</style>'')"

definition utility_stylesheet_link :: string where
  \<open>utility_stylesheet_link =
     ''<link href="https://cdn.jsdelivr.net/npm/tailwindcss@2.2.19/dist/tailwind.min.css" rel="stylesheet">''\<close>

definition document_body_open :: string where
  "document_body_open = ''\<newline></head>\<newline><body>\<newline>    ''"

definition document_close :: string where
  "document_close = ''\<newline></body>\<newline></html>''"

text \<open>The entry the specification gives a device in the record of responsive
  captures: the data URL, or \<open>null\<close> when that device's capture throws.\<close>

definition device_entry ::
  "('buf \<Rightarrow> string) \<Rightarrow> 'buf page_env \<Rightarrow> ScreenshotService \<Rightarrow> string \<Rightarrow> string \<Rightarrow> viewport
     \<Rightarrow> string option" where
  "device_entry encode env s html css v =
     (case fst (generateScreenshotDataUrl encode env s html css (viewport_options v)) of
        Inl e \<Rightarrow> None
      | Inr url \<Rightarrow> Some url)"

section \<open>Scenarios\<close>

text \<open>Concrete services and pages, on which the theorems below are run: a service
  after a successful launch, a page on which every call succeeds, and the default
  options of a capture.\<close>

definition ready_service :: ScreenshotService where
  "ready_service = \<lparr>browser = Some 1, isInitialized = True\<rparr>"

definition page_ok :: "nat \<Rightarrow> string page_env" where
  "page_ok p =
     \<lparr>newPage = Inr p,
      setViewport = (\<lambda>v. Inr ()),
      setContent = (\<lambda>document timeout. Inr ()),
      waitForTimeout = (\<lambda>delay. Inr ()),
      screenshot = (\<lambda>shot. Inr ''iVBORw0KGgo=''),
      page_close = Inr ()\<rparr>"

definition page_timeout :: "nat \<Rightarrow> string page_env" where
  "page_timeout p =
     (page_ok p)\<lparr>setContent :=
        (\<lambda>document timeout. Inl (Error ''Navigation timeout of 30000 ms exceeded''))\<rparr>"

definition hello_fragment :: string where
  "hello_fragment = ''<p>Hello</p>''"

definition red_css :: string where
  "red_css = ''body{color:red}''"

definition shop_document :: string where
  "shop_document = ''<html><head><title>Shop</title></head><body></body></html>''"

definition default_options :: screenshot_options where
  "default_options =
     \<lparr>opt_width = None, opt_height = None, opt_deviceScaleFactor = None, opt_fullPage = None,
      opt_format = None, opt_quality = None\<rparr>"

section \<open>Facts about the string primitives\<close>

lemma js_startsWith_append: "js_startsWith (p @ rest) p"
  by (induction p) auto

lemma js_includes_empty: "js_includes s []"
  by (cases s) simp_all

lemma js_includes_prefix: "js_includes (p @ rest) p"
proof (cases p)
  case Nil
  then show ?thesis by (simp add: js_includes_empty)
next
  case (Cons a q)
  have "js_startsWith (p @ rest) p" by (rule js_startsWith_append)
  then show ?thesis by (simp add: Cons)
qed

lemma js_includes_middle: "js_includes (pre @ p @ post) p"
  by (induction pre) (simp_all add: js_includes_prefix)

section \<open>Feature list\<close>

lemma rec_type_present:
  "(t \<in> set (map rec_type recs)) = (\<exists>r \<in> set recs. rec_type r = t)"
  by auto

lemma features_list:
  "determineFeaturesIncluded recs booking style =
     [''responsive_design'', ''modern_layout'']
     @ (if style = ''modern'' then [''modern_typography'', ''gradient_backgrounds''] else [])
     @ (if (\<exists>r \<in> set recs. rec_type r = ''mobile_optimization'') then [''mobile_optimized''] else [])
     @ (if (\<exists>r \<in> set recs. rec_type r = ''seo_optimization'') then [''seo_optimized''] else [])
     @ (if (\<exists>r \<in> set recs. rec_type r = ''conversion_optimization'') then [''conversion_optimized''] else [])
     @ (if booking then [''booking_integration''] else [])
     @ [''call_to_action'', ''contact_section'', ''services_showcase'']"
  unfolding determineFeaturesIncluded_def push_def Let_def rec_type_present by simp

text \<open>
  Claim C1. For every list of recommendations, booking flag and style preference,
  \<open>determineFeaturesIncluded\<close> returns exactly this ordered list: the two baseline
  tokens; then \<open>modern_typography\<close> and \<open>gradient_backgrounds\<close> if and only if the style
  is \<open>modern\<close>; then, in the fixed order mobile, seo, conversion, the token of each of
  the three recommendation types that occurs anywhere in the recommendations, once
  however often the type occurs; then \<open>booking_integration\<close> if and only if booking is
  requested; then the three closing tokens.
\<close>

theorem C1_featuresIncluded:
  "determineFeaturesIncluded recs booking style =
     [''responsive_design'', ''modern_layout'']
     @ (if style = ''modern'' then [''modern_typography'', ''gradient_backgrounds''] else [])
     @ (if (\<exists>r \<in> set recs. rec_type r = ''mobile_optimization'') then [''mobile_optimized''] else [])
     @ (if (\<exists>r \<in> set recs. rec_type r = ''seo_optimization'') then [''seo_optimized''] else [])
     @ (if (\<exists>r \<in> set recs. rec_type r = ''conversion_optimization'') then [''conversion_optimized''] else [])
     @ (if booking then [''booking_integration''] else [])
     @ [''call_to_action'', ''contact_section'', ''services_showcase'']
   \<and> (''modern_typography'' \<in> set (determineFeaturesIncluded recs booking style)) = (style = ''modern'')
   \<and> (''gradient_backgrounds'' \<in> set (determineFeaturesIncluded recs booking style)) = (style = ''modern'')
   \<and> (''booking_integration'' \<in> set (determineFeaturesIncluded recs booking style)) = booking
   \<and> count_list (determineFeaturesIncluded recs booking style) ''mobile_optimized''
         = (if (\<exists>r \<in> set recs. rec_type r = ''mobile_optimization'') then 1 else 0)
   \<and> count_list (determineFeaturesIncluded recs booking style) ''seo_optimized''
         = (if (\<exists>r \<in> set recs. rec_type r = ''seo_optimization'') then 1 else 0)
   \<and> count_list (determineFeaturesIncluded recs booking style) ''conversion_optimized''
         = (if (\<exists>r \<in> set recs. rec_type r = ''conversion_optimization'') then 1 else 0)"
  unfolding features_list by simp

theorem C1_featuresIncluded_witness:
  "determineFeaturesIncluded
     [\<lparr>rec_type = ''seo_optimization'', rec_title = ''a'', rec_description = ''b''\<rparr>,
      \<lparr>rec_type = ''mobile_optimization'', rec_title = ''c'', rec_description = ''d''\<rparr>,
      \<lparr>rec_type = ''seo_optimization'', rec_title = ''e'', rec_description = ''f''\<rparr>]
     True ''classic''
   = [''responsive_design'', ''modern_layout'', ''mobile_optimized'', ''seo_optimized'',
      ''booking_integration'', ''call_to_action'', ''contact_section'', ''services_showcase'']"
  using C1_featuresIncluded [of
     "[\<lparr>rec_type = ''seo_optimization'', rec_title = ''a'', rec_description = ''b''\<rparr>,
      \<lparr>rec_type = ''mobile_optimization'', rec_title = ''c'', rec_description = ''d''\<rparr>,
      \<lparr>rec_type = ''seo_optimization'', rec_title = ''e'', rec_description = ''f''\<rparr>]"
     True "''classic''"]
  by simp

section \<open>Improvement narrative\<close>

lemma remdups_snoc:
  "remdups (ys @ [x]) = filter (\<lambda>y. y \<noteq> x) (remdups ys) @ [x]"
  by (induction ys) auto

lemma first_seen_Cons:
  "rev (remdups (rev (x # xs))) = x # filter (\<lambda>y. y \<noteq> x) (rev (remdups (rev xs)))"
  by (simp add: remdups_snoc rev_filter)

lemma foldl_set_add:
  "foldl set_add acc xs = acc @ filter (\<lambda>y. y \<notin> set acc) (rev (remdups (rev xs)))"
proof (induction xs arbitrary: acc)
  case Nil
  then show ?case by simp
next
  case (Cons x xs)
  have step: "foldl set_add acc (x # xs) = foldl set_add (set_add acc x) xs" by simp
  show ?case
  proof (cases "x \<in> set acc")
    case True
    then have "set_add acc x = acc" by (simp add: set_add_def)
    moreover have "filter (\<lambda>y. y \<notin> set acc) (filter (\<lambda>y. y \<noteq> x) (rev (remdups (rev xs))))
                 = filter (\<lambda>y. y \<notin> set acc) (rev (remdups (rev xs)))"
      using True by (auto intro: filter_cong)
    ultimately show ?thesis
      unfolding step first_seen_Cons using True by (simp add: Cons.IH)
  next
    case False
    then have "set_add acc x = acc @ [x]" by (simp add: set_add_def)
    moreover have "filter (\<lambda>y. y \<notin> set (acc @ [x])) (rev (remdups (rev xs)))
                 = filter (\<lambda>y. y \<notin> set acc) (filter (\<lambda>y. y \<noteq> x) (rev (remdups (rev xs))))"
      by (auto intro: filter_cong)
    ultimately show ?thesis
      unfolding step first_seen_Cons using False by (simp add: Cons.IH)
  qed
qed

text \<open>The elements of a \<open>Set\<close> built from a list are the list's elements without
  repetition, each at the place of its first occurrence.\<close>

lemma new_Set_first_seen: "new_Set xs = rev (remdups (rev xs))"
  by (simp add: new_Set_def foldl_set_add)

lemma new_Set_distinct: "distinct (new_Set xs)"
  by (simp add: new_Set_first_seen)

lemma new_Set_set: "set (new_Set xs) = set xs"
  by (simp add: new_Set_first_seen)

lemma narrative_template:
  "generateImprovementDescription recs feats =
     ''Implemented '' @ number_toString (length recs) @ '' key improvements including ''
     @ js_join '', '' (take 3 (new_Set (map (\<lambda>r. improvement_phrase (rec_type r)) recs)))
     @ (if 3 < length (new_Set (map (\<lambda>r. improvement_phrase (rec_type r)) recs))
        then '', and ''
             @ number_toString (length (new_Set (map (\<lambda>r. improvement_phrase (rec_type r)) recs)) - 3)
             @ '' other improvements''
        else [])
     @ ''. Features '' @ number_toString (length feats)
     @ '' modern web components for enhanced user experience and business growth.''"
  by (simp add: generateImprovementDescription_def Let_def)

lemma narrative_four_types:
  "generateImprovementDescription
     [\<lparr>rec_type = ''design_improvement'', rec_title = t1, rec_description = d1\<rparr>,
      \<lparr>rec_type = ''mobile_optimization'', rec_title = t2, rec_description = d2\<rparr>,
      \<lparr>rec_type = ''seo_optimization'', rec_title = t3, rec_description = d3\<rparr>,
      \<lparr>rec_type = ''performance_boost'', rec_title = t4, rec_description = d4\<rparr>] [f]
   = ''Implemented 4 key improvements including modern design, mobile optimization, SEO optimization, and 1 other improvements. Features 1 modern web components for enhanced user experience and business growth.''"
  by (simp add: generateImprovementDescription_def Let_def new_Set_def set_add_def
        improvement_phrase_def digit_char_def)

lemma narrative_no_recommendations:
  "generateImprovementDescription [] feats =
     ''Implemented 0 key improvements'' @ '' including . Features '' @ number_toString (length feats)
     @ '' modern web components for enhanced user experience and business growth.''"
  by (simp add: generateImprovementDescription_def Let_def new_Set_def digit_char_def)

text \<open>
  Claim C7. For every list of recommendations and every list of features, the narrative
  is the fixed sentence: the number of recommendations; the phrases of the
  recommendation types, without repetition and in the order of first occurrence, of
  which the first three are joined with a comma and a space; the clause
  \<open>and N other improvements\<close>, with \<open>N\<close> the number of distinct phrases minus three,
  exactly when there are more than three distinct phrases; and the number of features.
  The phrase of a type is given by the closed lookup, with \<open>website enhancement\<close> for
  every other type. The two literal scenarios of the specification follow.
\<close>

theorem C7_improvement_narrative:
  "(let phrases = map (\<lambda>r. improvement_phrase (rec_type r)) recs;
        unique = new_Set phrases
    in generateImprovementDescription recs feats =
         ''Implemented '' @ number_toString (length recs) @ '' key improvements including ''
         @ js_join '', '' (take 3 unique)
         @ (if 3 < length unique
            then '', and '' @ number_toString (length unique - 3) @ '' other improvements''
            else [])
         @ ''. Features '' @ number_toString (length feats)
         @ '' modern web components for enhanced user experience and business growth.''
       \<and> distinct unique \<and> set unique = set phrases
       \<and> unique = rev (remdups (rev phrases)))
   \<and> improvement_phrase ''design_improvement'' = ''modern design''
   \<and> improvement_phrase ''mobile_optimization'' = ''mobile optimization''
   \<and> improvement_phrase ''seo_optimization'' = ''SEO optimization''
   \<and> improvement_phrase ''conversion_optimization'' = ''conversion optimization''
   \<and> improvement_phrase ''performance_boost'' = ''performance improvements''
   \<and> (t \<notin> {''design_improvement'', ''mobile_optimization'', ''seo_optimization'',
            ''conversion_optimization'', ''performance_boost''}
        \<longrightarrow> improvement_phrase t = ''website enhancement'')
   \<and> (let narrative = generateImprovementDescription
           [\<lparr>rec_type = ''design_improvement'', rec_title = t1, rec_description = d1\<rparr>,
            \<lparr>rec_type = ''mobile_optimization'', rec_title = t2, rec_description = d2\<rparr>,
            \<lparr>rec_type = ''seo_optimization'', rec_title = t3, rec_description = d3\<rparr>,
            \<lparr>rec_type = ''performance_boost'', rec_title = t4, rec_description = d4\<rparr>] [f]
        in js_includes narrative ''modern design, mobile optimization, SEO optimization''
         \<and> js_includes narrative ''and 1 other improvements''
         \<and> js_includes narrative ''Implemented 4 key improvements''
         \<and> js_includes narrative ''Features 1 modern web components'')
   \<and> js_includes (generateImprovementDescription [] feats) ''Implemented 0 key improvements''"
proof -
  have a: "improvement_phrase ''design_improvement'' = ''modern design''"
    and b: "improvement_phrase ''mobile_optimization'' = ''mobile optimization''"
    and c: "improvement_phrase ''seo_optimization'' = ''SEO optimization''"
    and d: "improvement_phrase ''conversion_optimization'' = ''conversion optimization''"
    and e: "improvement_phrase ''performance_boost'' = ''performance improvements''"
    by (simp_all add: improvement_phrase_def)
  have other: "t \<notin> {''design_improvement'', ''mobile_optimization'', ''seo_optimization'',
            ''conversion_optimization'', ''performance_boost''}
        \<longrightarrow> improvement_phrase t = ''website enhancement''"
    by (simp add: improvement_phrase_def)
  have four: "js_includes (generateImprovementDescription
           [\<lparr>rec_type = ''design_improvement'', rec_title = t1, rec_description = d1\<rparr>,
            \<lparr>rec_type = ''mobile_optimization'', rec_title = t2, rec_description = d2\<rparr>,
            \<lparr>rec_type = ''seo_optimization'', rec_title = t3, rec_description = d3\<rparr>,
            \<lparr>rec_type = ''performance_boost'', rec_title = t4, rec_description = d4\<rparr>] [f]) p"
    if "\<exists>pre post. ''Implemented 4 key improvements including modern design, mobile optimization, SEO optimization, and 1 other improvements. Features 1 modern web components for enhanced user experience and business growth.'' = pre @ p @ post" for p
    using that unfolding narrative_four_types by (metis js_includes_middle)
  have s1: "\<exists>pre post. ''Implemented 4 key improvements including modern design, mobile optimization, SEO optimization, and 1 other improvements. Features 1 modern web components for enhanced user experience and business growth.''
      = pre @ ''modern design, mobile optimization, SEO optimization'' @ post"
    by (rule exI [of _ "''Implemented 4 key improvements including ''"],
        rule exI [of _ "'', and 1 other improvements. Features 1 modern web components for enhanced user experience and business growth.''"])
       simp
  have s2: "\<exists>pre post. ''Implemented 4 key improvements including modern design, mobile optimization, SEO optimization, and 1 other improvements. Features 1 modern web components for enhanced user experience and business growth.''
      = pre @ ''and 1 other improvements'' @ post"
    by (rule exI [of _ "''Implemented 4 key improvements including modern design, mobile optimization, SEO optimization, ''"],
        rule exI [of _ "''. Features 1 modern web components for enhanced user experience and business growth.''"])
       simp
  have s3: "\<exists>pre post. ''Implemented 4 key improvements including modern design, mobile optimization, SEO optimization, and 1 other improvements. Features 1 modern web components for enhanced user experience and business growth.''
      = pre @ ''Implemented 4 key improvements'' @ post"
    by (rule exI [of _ "[]"],
        rule exI [of _ "'' including modern design, mobile optimization, SEO optimization, and 1 other improvements. Features 1 modern web components for enhanced user experience and business growth.''"])
       simp
  have s4: "\<exists>pre post. ''Implemented 4 key improvements including modern design, mobile optimization, SEO optimization, and 1 other improvements. Features 1 modern web components for enhanced user experience and business growth.''
      = pre @ ''Features 1 modern web components'' @ post"
    by (rule exI [of _ "''Implemented 4 key improvements including modern design, mobile optimization, SEO optimization, and 1 other improvements. ''"],
        rule exI [of _ "'' for enhanced user experience and business growth.''"])
       simp
  have none: "js_includes (generateImprovementDescription [] feats) ''Implemented 0 key improvements''"
    unfolding narrative_no_recommendations by (rule js_includes_prefix)
  show ?thesis
    unfolding Let_def
    using narrative_template [of recs feats] a b c d e other none
    by (simp add: new_Set_distinct new_Set_set four [OF s1] four [OF s2] four [OF s3] four [OF s4]
          flip: new_Set_first_seen)
qed

theorem C7_improvement_narrative_witness:
  "generateImprovementDescription
     [\<lparr>rec_type = ''seo_optimization'', rec_title = ''a'', rec_description = ''b''\<rparr>,
      \<lparr>rec_type = ''seo_optimization'', rec_title = ''c'', rec_description = ''d''\<rparr>,
      \<lparr>rec_type = ''something_new'', rec_title = ''e'', rec_description = ''f''\<rparr>]
     [''responsive_design'', ''modern_layout'']
   = ''Implemented 3 key improvements including SEO optimization, website enhancement. Features 2 modern web components for enhanced user experience and business growth.''
   \<and> ''something_new'' \<notin> {''design_improvement'', ''mobile_optimization'', ''seo_optimization'',
            ''conversion_optimization'', ''performance_boost''}
   \<and> improvement_phrase ''something_new'' = ''website enhancement''"
  using C7_improvement_narrative [of
     "[\<lparr>rec_type = ''seo_optimization'', rec_title = ''a'', rec_description = ''b''\<rparr>,
      \<lparr>rec_type = ''seo_optimization'', rec_title = ''c'', rec_description = ''d''\<rparr>,
      \<lparr>rec_type = ''something_new'', rec_title = ''e'', rec_description = ''f''\<rparr>]"
     "[''responsive_design'', ''modern_layout'']" "''something_new''"]
  by (simp add: Let_def new_Set_def set_add_def improvement_phrase_def digit_char_def)

section \<open>Prompt construction\<close>

lemma or_empty_field: "or_empty v = field_or_empty v"
  by (cases v) (simp_all add: or_empty_def field_or_empty_def truthy_string_def)

lemma first_three_take: "first_three xs = take 3 xs"
  by (simp add: first_three_def numeral_3_eq_3 split: list.splits)

lemma color_clause_truthy:
  "(if truthy_string cs then ''Use this color scheme: '' @ the cs else [])
     = color_clause (if cs = Some [] then None else cs)"
  by (cases cs) (simp_all add: truthy_string_def color_clause_def)

text \<open>The prompt the source builds is the specification's sequence of sections; an
  empty \<open>colorScheme\<close> is read as an absent one.\<close>

lemma prompt_sections:
  "createHomepagePrompt name (Some info) recs content style booking cs
     = Inr (spec_prompt name info recs style booking (if cs = Some [] then None else cs))"
  unfolding createHomepagePrompt_def spec_prompt_def prompt_opening_def identity_section_def
    style_section_def improvements_section_def guidance_section_def requirements_section_def
    Let_def color_clause_truthy or_empty_field first_three_take booking_clause_def
    list_or_empty_def
  by simp

lemma supplied_color_scheme_nonempty: "supplied_color_scheme c \<Longrightarrow> c \<noteq> []"
  by (auto simp: supplied_color_scheme_def hex_color_def namedSchemes_def)

lemma validated_color_scheme_not_empty: "validated_color_scheme cs \<Longrightarrow> cs \<noteq> Some []"
  by (auto simp: validated_color_scheme_def dest: supplied_color_scheme_nonempty)

text \<open>\<open>join\<close> puts the separator before every element but the first.\<close>

lemma js_join_concat:
  "js_join sep xs = (case xs of [] \<Rightarrow> [] | x # rest \<Rightarrow> x @ concat (map (\<lambda>y. sep @ y) rest))"
  by (induction sep xs rule: js_join.induct) simp_all

text \<open>The guidance printed for an industry: its template, or the default template for
  a key that is neither in the table nor the name of an inherited member.\<close>

lemma templates_nonempty: "map_of templates ind = Some t \<Longrightarrow> t \<noteq> []"
  by (auto simp: templates_def template_home_services_def template_healthcare_def
        template_food_and_beverage_def template_automotive_def template_beauty_and_wellness_def
        template_professional_services_def template_retail_def template_default_def
        split: if_splits)

lemma guidance_text:
  "to_text (getIndustryTemplate ind bt) =
     (case map_of templates ind of
        Some t \<Rightarrow> t
      | None \<Rightarrow> if ind \<in> set object_prototype_keys then inherited_text ind
                else template_default)"
proof (cases "map_of templates ind")
  case None
  have "map_of templates ''default'' = Some template_default"
    by (simp add: templates_def)
  then show ?thesis
    using None by (simp add: getIndustryTemplate_def js_get_def Let_def)
next
  case (Some t)
  then show ?thesis
    using templates_nonempty [OF Some] by (simp add: getIndustryTemplate_def js_get_def Let_def)
qed

lemma guidance_healthcare:
  \<open>to_text (getIndustryTemplate ''healthcare'' bt) =
          ''\<newline>'' @
          ''- Emphasize professionalism and trust\<newline>'' @
          ''- Include practitioner credentials and certifications\<newline>'' @
          ''- Feature patient testimonials (anonymized)\<newline>'' @
          ''- Add online appointment booking\<newline>'' @
          ''- Include office hours and location prominently''\<close>
  by (simp add: guidance_text templates_def template_healthcare_def)

lemma recommendation_line_fun:
  "recommendation_line = (\<lambda>r. ''- '' @ rec_title r @ '': '' @ rec_description r)"
  by (rule ext) (simp add: recommendation_line_def)

lemma prompt_text:
  \<open>cs \<noteq> Some [] \<Longrightarrow>
     createHomepagePrompt name (Some info) recs content style booking cs = Inr (
          ''\<newline>'' @
          ''Create a modern, professional homepage for this business:\<newline>'' @
          ''\<newline>'' @
          ''Business Information:\<newline>'' @
          ''- Name: '' @
          name @
          ''\<newline>'' @
          ''- Type: '' @
          bi_business_type info @
          ''\<newline>'' @
          ''- Industry: '' @
          bi_industry info @
          ''\<newline>'' @
          ''- Description: '' @
          (case bi_description info of None \<Rightarrow> [] | Some v \<Rightarrow> v) @
          ''\<newline>'' @
          ''- Location: '' @
          (case bi_location info of None \<Rightarrow> [] | Some v \<Rightarrow> v) @
          ''\<newline>'' @
          ''- Phone: '' @
          (case bi_phone info of None \<Rightarrow> [] | Some v \<Rightarrow> v) @
          ''\<newline>'' @
          ''- Services: '' @
          js_join '', '' (case bi_services info of None \<Rightarrow> [] | Some v \<Rightarrow> v) @
          ''\<newline>'' @
          ''\<newline>'' @
          ''Style Requirements:\<newline>'' @
          ''- Style: '' @
          style @
          ''\<newline>'' @
          ''- '' @
          (case cs of None \<Rightarrow> [] | Some c \<Rightarrow> ''Use this color scheme: '' @ c) @
          ''\<newline>'' @
          ''- '' @
          (if booking then ''Include a prominent "Book Appointment" or "Schedule Service" button with data-booking-btn attribute.'' else []) @
          ''\<newline>'' @
          ''\<newline>'' @
          ''Key Improvements to Implement:\<newline>'' @
          js_join ''\<newline>''
         (map (\<lambda>r. ''- '' @ rec_title r @ '': '' @ rec_description r) (take 3 recs)) @
          ''\<newline>'' @
          ''\<newline>'' @
          ''Industry-Specific Requirements:\<newline>'' @
          to_text (getIndustryTemplate (bi_industry info) (bi_business_type info)) @
          ''\<newline>'' @
          ''\<newline>'' @
          ''Requirements:\<newline>'' @
          ''1. Create a complete HTML page with Tailwind CSS\<newline>'' @
          ''2. Include these sections:\<newline>'' @
          ''   - Header with navigation and contact info\<newline>'' @
          ''   - Hero section with compelling headline and value proposition\<newline>'' @
          ''   - Services/features section with icons or images\<newline>'' @
          ''   - About/trust section with credibility indicators\<newline>'' @
          ''   - Contact section with form and map placeholder\<newline>'' @
          ''   - Footer with business details\<newline>'' @
          ''3. Make it mobile-responsive with proper breakpoints\<newline>'' @
          ''4. Use modern design principles and accessibility\<newline>'' @
          ''5. Include clear call-to-action buttons throughout\<newline>'' @
          ''6. Optimize for '' @
          bi_business_type info @
          '' businesses\<newline>'' @
          ''7. Include contact information: '' @
          (case bi_phone info of None \<Rightarrow> [] | Some v \<Rightarrow> v) @
          ''\<newline>'' @
          ''8. Add proper semantic HTML structure\<newline>'' @
          ''9. Include meta tags for SEO\<newline>'' @
          ''10. Use appropriate color psychology for '' @
          bi_industry info @
          ''\<newline>'' @
          ''\<newline>'' @
          ''Generate only the complete HTML code with embedded Tailwind CSS classes. No explanations.\<newline>'' @
          ''The code should be production-ready, visually appealing, and convert visitors to customers.\<newline>'')\<close>
  unfolding prompt_sections spec_prompt_def prompt_opening_def identity_section_def
    style_section_def improvements_section_def guidance_section_def requirements_section_def
    field_or_empty_def list_or_empty_def first_three_take color_clause_def booking_clause_def
    recommendation_line_fun
  by simp

text \<open>
  Claim C9. Prompt construction is a function of its arguments alone. On validated
  input (the business information is present; the color scheme is \<open>null\<close> or a text
  that is not empty, as every validated color scheme is) it returns a prompt and never
  throws, and the prompt is the text below: the business identity fields, with an empty
  text or list for a missing optional field; the style preference; the color-scheme
  clause, which is there if and only if the color scheme is not \<open>null\<close>; the booking
  clause, which is there if and only if booking is requested; the first three
  recommendations, or all of them if there are fewer, each as a line
  \<open>- title: description\<close>, the lines separated by line breaks; the guidance that the
  catalog has for the industry; and the fixed list of requirements. \<open>join\<close> puts its
  separator between the elements, and the guidance is the industry's template (for
  \<open>healthcare\<close> the text given), or the default template, whose text is given too, for
  an industry that the catalog does not know.
\<close>

theorem C9_prompt_construction:
  \<open>cs \<noteq> Some [] \<Longrightarrow>
     createHomepagePrompt name (Some info) recs content style booking cs = Inr (
          ''\<newline>'' @
          ''Create a modern, professional homepage for this business:\<newline>'' @
          ''\<newline>'' @
          ''Business Information:\<newline>'' @
          ''- Name: '' @
          name @
          ''\<newline>'' @
          ''- Type: '' @
          bi_business_type info @
          ''\<newline>'' @
          ''- Industry: '' @
          bi_industry info @
          ''\<newline>'' @
          ''- Description: '' @
          (case bi_description info of None \<Rightarrow> [] | Some v \<Rightarrow> v) @
          ''\<newline>'' @
          ''- Location: '' @
          (case bi_location info of None \<Rightarrow> [] | Some v \<Rightarrow> v) @
          ''\<newline>'' @
          ''- Phone: '' @
          (case bi_phone info of None \<Rightarrow> [] | Some v \<Rightarrow> v) @
          ''\<newline>'' @
          ''- Services: '' @
          js_join '', '' (case bi_services info of None \<Rightarrow> [] | Some v \<Rightarrow> v) @
          ''\<newline>'' @
          ''\<newline>'' @
          ''Style Requirements:\<newline>'' @
          ''- Style: '' @
          style @
          ''\<newline>'' @
          ''- '' @
          (case cs of None \<Rightarrow> [] | Some c \<Rightarrow> ''Use this color scheme: '' @ c) @
          ''\<newline>'' @
          ''- '' @
          (if booking then ''Include a prominent "Book Appointment" or "Schedule Service" button with data-booking-btn attribute.'' else []) @
          ''\<newline>'' @
          ''\<newline>'' @
          ''Key Improvements to Implement:\<newline>'' @
          js_join ''\<newline>''
         (map (\<lambda>r. ''- '' @ rec_title r @ '': '' @ rec_description r) (take 3 recs)) @
          ''\<newline>'' @
          ''\<newline>'' @
          ''Industry-Specific Requirements:\<newline>'' @
          to_text (getIndustryTemplate (bi_industry info) (bi_business_type info)) @
          ''\<newline>'' @
          ''\<newline>'' @
          ''Requirements:\<newline>'' @
          ''1. Create a complete HTML page with Tailwind CSS\<newline>'' @
          ''2. Include these sections:\<newline>'' @
          ''   - Header with navigation and contact info\<newline>'' @
          ''   - Hero section with compelling headline and value proposition\<newline>'' @
          ''   - Services/features section with icons or images\<newline>'' @
          ''   - About/trust section with credibility indicators\<newline>'' @
          ''   - Contact section with form and map placeholder\<newline>'' @
          ''   - Footer with business details\<newline>'' @
          ''3. Make it mobile-responsive with proper breakpoints\<newline>'' @
          ''4. Use modern design principles and accessibility\<newline>'' @
          ''5. Include clear call-to-action buttons throughout\<newline>'' @
          ''6. Optimize for '' @
          bi_business_type info @
          '' businesses\<newline>'' @
          ''7. Include contact information: '' @
          (case bi_phone info of None \<Rightarrow> [] | Some v \<Rightarrow> v) @
          ''\<newline>'' @
          ''8. Add proper semantic HTML structure\<newline>'' @
          ''9. Include meta tags for SEO\<newline>'' @
          ''10. Use appropriate color psychology for '' @
          bi_industry info @
          ''\<newline>'' @
          ''\<newline>'' @
          ''Generate only the complete HTML code with embedded Tailwind CSS classes. No explanations.\<newline>'' @
          ''The code should be production-ready, visually appealing, and convert visitors to customers.\<newline>'')
     \<and> (validated_color_scheme v \<longrightarrow> v \<noteq> Some [])
     \<and> js_join sep xs
         = (case xs of [] \<Rightarrow> [] | x # rest \<Rightarrow> x @ concat (map (\<lambda>y. sep @ y) rest))
     \<and> to_text (getIndustryTemplate ind bt) =
         (case map_of templates ind of
            Some t \<Rightarrow> t
          | None \<Rightarrow> if ind \<in> set object_prototype_keys then inherited_text ind
                    else template_default)
     \<and> to_text (getIndustryTemplate ''healthcare'' bt) =
          ''\<newline>'' @
          ''- Emphasize professionalism and trust\<newline>'' @
          ''- Include practitioner credentials and certifications\<newline>'' @
          ''- Feature patient testimonials (anonymized)\<newline>'' @
          ''- Add online appointment booking\<newline>'' @
          ''- Include office hours and location prominently''
     \<and> template_default =
          ''\<newline>'' @
          ''- Focus on clear value proposition\<newline>'' @
          ''- Include customer testimonials\<newline>'' @
          ''- Feature key services prominently\<newline>'' @
          ''- Add clear contact methods\<newline>'' @
          ''- Include business credentials and trust signals''\<close>
proof -
  assume nonempty: "cs \<noteq> Some []"
  note prompt = prompt_text [OF nonempty, of name info recs content style booking]
  show ?thesis
    by (intro conjI impI)
       (rule prompt, erule validated_color_scheme_not_empty, rule js_join_concat,
        rule guidance_text, rule guidance_healthcare, simp add: template_default_def)
qed

theorem C9_prompt_construction_witness:
  \<open>validated_color_scheme (Some ''#FF0000'')
   \<and> Some ''#FF0000'' \<noteq> Some ([] :: string)
   \<and> createHomepagePrompt ''Bright Smile Dental''
         (Some \<lparr>bi_name = ''Bright Smile Dental'', bi_business_type = ''dentist'', bi_industry = ''healthcare'',
           bi_services = Some [''Cleaning'', ''Whitening''], bi_description = Some ''Family dental care'',
           bi_location = None, bi_phone = Some ''555-0100''\<rparr>)
         [\<lparr>rec_type = ''mobile_optimization'', rec_title = ''Mobile layout'',
            rec_description = ''Make the site usable on phones''\<rparr>,
          \<lparr>rec_type = ''seo_optimization'', rec_title = ''Meta tags'',
            rec_description = ''Add titles and descriptions''\<rparr>,
          \<lparr>rec_type = ''design_improvement'', rec_title = ''Fresh look'',
            rec_description = ''Replace the dated theme''\<rparr>,
          \<lparr>rec_type = ''performance_boost'', rec_title = ''Faster pages'',
            rec_description = ''Compress the images''\<rparr>]
         () ''modern'' True (Some ''#FF0000'')
       = Inr (
          ''\<newline>'' @
          ''Create a modern, professional homepage for this business:\<newline>'' @
          ''\<newline>'' @
          ''Business Information:\<newline>'' @
          ''- Name: Bright Smile Dental\<newline>'' @
          ''- Type: dentist\<newline>'' @
          ''- Industry: healthcare\<newline>'' @
          ''- Description: Family dental care\<newline>'' @
          ''- Location: \<newline>'' @
          ''- Phone: 555-0100\<newline>'' @
          ''- Services: Cleaning, Whitening\<newline>'' @
          ''\<newline>'' @
          ''Style Requirements:\<newline>'' @
          ''- Style: modern\<newline>'' @
          ''- Use this color scheme: #FF0000\<newline>'' @
          ''- Include a prominent "Book Appointment" or "Schedule Service" button with data-booking-btn attribute.\<newline>'' @
          ''\<newline>'' @
          ''Key Improvements to Implement:\<newline>'' @
          ''- Mobile layout: Make the site usable on phones\<newline>'' @
          ''- Meta tags: Add titles and descriptions\<newline>'' @
          ''- Fresh look: Replace the dated theme\<newline>'' @
          ''\<newline>'' @
          ''Industry-Specific Requirements:\<newline>'' @
          ''\<newline>'' @
          ''- Emphasize professionalism and trust\<newline>'' @
          ''- Include practitioner credentials and certifications\<newline>'' @
          ''- Feature patient testimonials (anonymized)\<newline>'' @
          ''- Add online appointment booking\<newline>'' @
          ''- Include office hours and location prominently\<newline>'' @
          ''\<newline>'' @
          ''Requirements:\<newline>'' @
          ''1. Create a complete HTML page with Tailwind CSS\<newline>'' @
          ''2. Include these sections:\<newline>'' @
          ''   - Header with navigation and contact info\<newline>'' @
          ''   - Hero section with compelling headline and value proposition\<newline>'' @
          ''   - Services/features section with icons or images\<newline>'' @
          ''   - About/trust section with credibility indicators\<newline>'' @
          ''   - Contact section with form and map placeholder\<newline>'' @
          ''   - Footer with business details\<newline>'' @
          ''3. Make it mobile-responsive with proper breakpoints\<newline>'' @
          ''4. Use modern design principles and accessibility\<newline>'' @
          ''5. Include clear call-to-action buttons throughout\<newline>'' @
          ''6. Optimize for dentist businesses\<newline>'' @
          ''7. Include contact information: 555-0100\<newline>'' @
          ''8. Add proper semantic HTML structure\<newline>'' @
          ''9. Include meta tags for SEO\<newline>'' @
          ''10. Use appropriate color psychology for healthcare\<newline>'' @
          ''\<newline>'' @
          ''Generate only the complete HTML code with embedded Tailwind CSS classes. No explanations.\<newline>'' @
          ''The code should be production-ready, visually appealing, and convert visitors to customers.\<newline>'')\<close>
proof -
  have v: "validated_color_scheme (Some ''#FF0000'')"
    by (simp add: validated_color_scheme_def supplied_color_scheme_def hex_color_def
          is_hex_digit_def)
  have h: "Some ''#FF0000'' \<noteq> Some ([] :: string)"
    by simp
  have g: "getIndustryTemplate ''healthcare'' ''dentist'' = Own template_healthcare"
    by (simp add: getIndustryTemplate_def js_get_def Let_def templates_def
          template_healthcare_def)
  show ?thesis
    using v h
      C9_prompt_construction [OF h, where name = "''Bright Smile Dental''" and content = "()"
        and style = "''modern''" and booking = True
        and info = "\<lparr>bi_name = ''Bright Smile Dental'', bi_business_type = ''dentist'', bi_industry = ''healthcare'',
           bi_services = Some [''Cleaning'', ''Whitening''], bi_description = Some ''Family dental care'',
           bi_location = None, bi_phone = Some ''555-0100''\<rparr>"
        and recs = "[\<lparr>rec_type = ''mobile_optimization'', rec_title = ''Mobile layout'',
            rec_description = ''Make the site usable on phones''\<rparr>,
          \<lparr>rec_type = ''seo_optimization'', rec_title = ''Meta tags'',
            rec_description = ''Add titles and descriptions''\<rparr>,
          \<lparr>rec_type = ''design_improvement'', rec_title = ''Fresh look'',
            rec_description = ''Replace the dated theme''\<rparr>,
          \<lparr>rec_type = ''performance_boost'', rec_title = ''Faster pages'',
            rec_description = ''Compress the images''\<rparr>]"]
    by (simp add: g template_healthcare_def)
qed

section \<open>Palette and template catalog\<close>

lemma industryColors_default:
  "map_of industryColors ''default''
     = Some \<lparr>primary = ''#3B82F6'', secondary = ''#1E40AF'', accent = ''#10B981''\<rparr>"
  by (simp add: industryColors_def)

lemma getBaseColors_supplied:
  "c \<noteq> [] \<Longrightarrow> getBaseColors (Some c) ind
     = Own \<lparr>primary = ''#3B82F6'', secondary = ''#1E40AF'', accent = ''#EF4444''\<rparr>"
  by (simp add: getBaseColors_def truthy_string_def)

lemma getBaseColors_null:
  "getBaseColors None ind =
     (case map_of industryColors ind of
        Some p \<Rightarrow> Own p
      | None \<Rightarrow> if ind \<in> set object_prototype_keys then Inherited ind
                else Own \<lparr>primary = ''#3B82F6'', secondary = ''#1E40AF'', accent = ''#10B981''\<rparr>)"
  by (simp add: getBaseColors_def truthy_string_def js_get_def Let_def industryColors_default
        split: option.splits)

lemma getBaseColors_empty: "getBaseColors (Some []) ind = getBaseColors None ind"
  by (simp add: getBaseColors_def truthy_string_def)

lemma getBaseColors_healthcare:
  "getBaseColors None ''healthcare''
     = Own \<lparr>primary = ''#10B981'', secondary = ''#059669'', accent = ''#3B82F6''\<rparr>"
  by (simp add: getBaseColors_null industryColors_def)

text \<open>The custom style sheet is the text of \<open>custom_css\<close> for the palette that
  \<open>_getBaseColors\<close> returns; the lookup never returns \<open>undefined\<close>.\<close>

lemma js_trim_core:
  assumes "\<forall>c \<in> set before. is_white_space c" and "\<forall>c \<in> set after. is_white_space c"
    and "core \<noteq> []" and "\<not> is_white_space (hd core)" and "\<not> is_white_space (last core)"
  shows "js_trim (before @ core @ after) = core"
proof -
  have front: "dropWhile is_white_space (before @ core @ after) = core @ after"
    using assms(1,3,4) by (cases core) (simp_all add: dropWhile_append2)
  have "dropWhile is_white_space (rev after @ rev core) = dropWhile is_white_space (rev core)"
    by (rule dropWhile_append2) (use assms(2) in auto)
  also have "\<dots> = rev core"
    using assms(3,5) by (cases core rule: rev_cases) simp_all
  finally have "dropWhile is_white_space (rev after @ rev core) = rev core" .
  then show ?thesis
    by (simp add: js_trim_def front)
qed

lemma generateCustomCSS_text:
  "getBaseColors cs (bi_industry info) \<noteq> Undefined \<Longrightarrow>
     generateCustomCSS (Some info) style cs
       = Inr (custom_css (bi_name info) (getBaseColors cs (bi_industry info)))"
proof -
  assume defined: "getBaseColors cs (bi_industry info) \<noteq> Undefined"
  let ?core = "custom_css (bi_name info) (getBaseColors cs (bi_industry info))"
  have core: "?core \<noteq> []" "\<not> is_white_space (hd ?core)" "\<not> is_white_space (last ?core)"
    by (simp_all add: custom_css_def css_utility_rules_def is_white_space_def)
  have "js_trim (''\<newline>'' @ ?core @ ''\<newline>'') = ?core"
    by (rule js_trim_core) (use core in \<open>simp_all add: is_white_space_def\<close>)
  moreover have "generateCustomCSS (Some info) style cs
      = Inr (js_trim (''\<newline>'' @ ?core @ ''\<newline>''))"
    using defined
    by (simp add: generateCustomCSS_def Let_def custom_css_def css_variable_block_def
          css_utility_rules_def)
  ultimately show ?thesis by simp
qed

lemma getBaseColors_defined: "getBaseColors cs ind \<noteq> Undefined"
  by (cases "truthy_string cs")
     (simp_all add: getBaseColors_def js_get_def Let_def industryColors_default
        split: option.splits)

text \<open>
  Claim C2. Whenever a color scheme is supplied (a validated hex color or named token,
  or any other non-empty text), the palette from which the custom CSS variables are
  derived is the fixed palette \<open>#3B82F6\<close>, \<open>#1E40AF\<close>, \<open>#EF4444\<close>, whatever the supplied
  value and the industry. When the color scheme is \<open>null\<close>, the palette is the entry of
  the industry in the catalog (and what the catalog gives otherwise); for the industry
  \<open>healthcare\<close> it is \<open>#10B981\<close>, \<open>#059669\<close>, \<open>#3B82F6\<close>. The custom style sheet
  is the text \<open>custom_css\<close> with the three colors of that palette as its variables.
\<close>

theorem C2_base_colors:
  "(supplied_color_scheme c \<longrightarrow>
      getBaseColors (Some c) ind
        = Own \<lparr>primary = ''#3B82F6'', secondary = ''#1E40AF'', accent = ''#EF4444''\<rparr>)
   \<and> (c \<noteq> [] \<longrightarrow>
      getBaseColors (Some c) ind
        = Own \<lparr>primary = ''#3B82F6'', secondary = ''#1E40AF'', accent = ''#EF4444''\<rparr>)
   \<and> getBaseColors None ind =
        (case map_of industryColors ind of
           Some p \<Rightarrow> Own p
         | None \<Rightarrow> if ind \<in> set object_prototype_keys then Inherited ind
                   else Own \<lparr>primary = ''#3B82F6'', secondary = ''#1E40AF'', accent = ''#10B981''\<rparr>)
   \<and> getBaseColors None ''healthcare''
        = Own \<lparr>primary = ''#10B981'', secondary = ''#059669'', accent = ''#3B82F6''\<rparr>
   \<and> generateCustomCSS (Some info) style cs
        = Inr (custom_css (bi_name info) (getBaseColors cs (bi_industry info)))"
  using getBaseColors_null [of ind]
    generateCustomCSS_text [OF getBaseColors_defined, where cs = cs and info = info and style = style]
  by (auto simp: getBaseColors_supplied getBaseColors_healthcare
           dest: supplied_color_scheme_nonempty)

theorem C2_base_colors_witness:
  "supplied_color_scheme ''#FF0000''
   \<and> getBaseColors (Some ''#FF0000'') ''healthcare''
        = Own \<lparr>primary = ''#3B82F6'', secondary = ''#1E40AF'', accent = ''#EF4444''\<rparr>
   \<and> getBaseColors None ''automotive''
        = Own \<lparr>primary = ''#DC2626'', secondary = ''#B91C1C'', accent = ''#374151''\<rparr>"
proof -
  have h: "supplied_color_scheme ''#FF0000''"
    by (simp add: supplied_color_scheme_def hex_color_def is_hex_digit_def)
  show ?thesis
    using h C2_base_colors [of "''#FF0000''" "''healthcare''"]
      C2_base_colors [of "''#FF0000''" "''automotive''"]
    by (simp add: industryColors_def)
qed

text \<open>
  Claim C8, at the input where the code leaves it. The template table has an entry
  for \<open>retail\<close>; the palette table has none, so that \<open>retail\<close> gets the default palette,
  the palette of an industry that is not in the catalog. A key that names a member of
  \<open>Object.prototype\<close> is not in the catalog either, and both lookups return that member
  instead of the default entry.
\<close>

theorem C8_retail_has_no_palette:
  "map_of templates ''retail'' = Some template_retail
   \<and> getIndustryTemplate ''retail'' businessType = Own template_retail
   \<and> map_of industryColors ''retail'' = None
   \<and> getBaseColors None ''retail''
        = Own \<lparr>primary = ''#3B82F6'', secondary = ''#1E40AF'', accent = ''#10B981''\<rparr>
   \<and> getBaseColors None ''retail'' = getBaseColors None ''unknown''
   \<and> getIndustryTemplate ''toString'' businessType = Inherited ''toString''
   \<and> getBaseColors None ''toString'' = Inherited ''toString''"
  by (simp add: getBaseColors_null getIndustryTemplate_def js_get_def Let_def templates_def
        industryColors_def object_prototype_keys_def template_retail_def)

section \<open>Render engine: capture\<close>


lemma generateScreenshot_open_fails:
  "isInitialized s \<Longrightarrow> browser s \<noteq> None \<Longrightarrow> newPage env = Inl e \<Longrightarrow>
     generateScreenshot env s html css options = (Inl e, [])"
  by (auto simp: generateScreenshot_def Let_def)

lemma generateScreenshot_events:
  "isInitialized s \<Longrightarrow> browser s \<noteq> None \<Longrightarrow> newPage env = Inr page \<Longrightarrow>
   page_close env = Inr u \<Longrightarrow>
     snd (generateScreenshot env s html css options) = [PageOpened page, PageClosed page]"
  by (auto simp: generateScreenshot_def Let_def)

lemma generateScreenshot_opens_at_most_one:
  "length (pages_opened (snd (generateScreenshot env s html css options))) \<le> 1"
  by (simp add: generateScreenshot_def Let_def split: sum.splits)

lemma generateScreenshot_rethrows:
  "isInitialized s \<Longrightarrow> browser s \<noteq> None \<Longrightarrow> newPage env = Inr page \<Longrightarrow>
   page_close env = Inr u \<Longrightarrow>
     fst (generateScreenshot env s html css options) =
       (case setViewport env \<lparr>vp_width = or_default (opt_width options) 1200,
                               vp_height = or_default (opt_height options) 800,
                               vp_deviceScaleFactor = or_default (opt_deviceScaleFactor options) 1\<rparr> of
          Inl e \<Rightarrow> Inl e
        | Inr a \<Rightarrow>
       (case setContent env (createCompleteHtml html css) 30000 of
          Inl e \<Rightarrow> Inl e
        | Inr b \<Rightarrow>
       (case waitForTimeout env 1000 of
          Inl e \<Rightarrow> Inl e
        | Inr c \<Rightarrow>
            screenshot env
              \<lparr>shot_type = or_default (opt_format options) ''png'',
               shot_fullPage = or_default (opt_fullPage options) True,
               shot_quality = (if or_default (opt_format options) ''png'' = ''jpeg''
                               then Some (or_default (opt_quality options) 90) else None)\<rparr>)))"
  by (auto simp: generateScreenshot_def Let_def)

text \<open>
  Claim C3, as the code has it. A capture call on a ready service opens at most one
  page: exactly one when the browser's \<open>newPage\<close> call succeeds, and none when it
  throws, in which case the call rethrows with nothing to close. When a page was
  opened, then whatever the viewport, content-load (time-out included), settle-delay
  and screenshot steps answer, the call closes that page last and only then returns
  the image or rethrows the first error; provided the close itself succeeds, the pages
  open after the call are the pages that were open before it.
\<close>

theorem C3_capture_closes_its_page:
  "isInitialized s \<Longrightarrow> browser s \<noteq> None \<Longrightarrow>
     length (pages_opened (snd (generateScreenshot env s html css options))) \<le> 1
     \<and> (case newPage env of
           Inl e \<Rightarrow> generateScreenshot env s html css options = (Inl e, [])
         | Inr page \<Rightarrow>
             pages_opened (snd (generateScreenshot env s html css options)) = [page]
             \<and> (page_close env = Inr () \<longrightarrow>
                  snd (generateScreenshot env s html css options)
                    = [PageOpened page, PageClosed page]
                  \<and> open_pages_after (snd (generateScreenshot env s html css options)) pages
                      = pages
                  \<and> fst (generateScreenshot env s html css options) =
                      (case setViewport env
                              \<lparr>vp_width = or_default (opt_width options) 1200,
                               vp_height = or_default (opt_height options) 800,
                               vp_deviceScaleFactor = or_default (opt_deviceScaleFactor options) 1\<rparr> of
                         Inl e \<Rightarrow> Inl e
                       | Inr a \<Rightarrow>
                      (case setContent env (createCompleteHtml html css) 30000 of
                         Inl e \<Rightarrow> Inl e
                       | Inr b \<Rightarrow>
                      (case waitForTimeout env 1000 of
                         Inl e \<Rightarrow> Inl e
                       | Inr c \<Rightarrow>
                           screenshot env
                             \<lparr>shot_type = or_default (opt_format options) ''png'',
                              shot_fullPage = or_default (opt_fullPage options) True,
                              shot_quality =
                                (if or_default (opt_format options) ''png'' = ''jpeg''
                                 then Some (or_default (opt_quality options) 90)
                                 else None)\<rparr>)))))"
proof -
  assume ready: "isInitialized s" "browser s \<noteq> None"
  have one: "length (pages_opened (snd (generateScreenshot env s html css options))) \<le> 1"
    by (rule generateScreenshot_opens_at_most_one)
  show ?thesis
  proof (cases "newPage env")
    case (Inl e)
    then show ?thesis
      using one generateScreenshot_open_fails [OF ready Inl] by simp
  next
    case (Inr page)
    have opened: "pages_opened (snd (generateScreenshot env s html css options)) = [page]"
      using ready Inr by (auto simp: generateScreenshot_def Let_def split: sum.splits)
    show ?thesis
      using one opened Inr
        generateScreenshot_events [OF ready Inr, of "()" html css options]
        generateScreenshot_rethrows [OF ready Inr, of "()" html css options]
      by (simp add: open_pages_after_def)
  qed
qed

theorem C3_capture_closes_its_page_witness:
  "isInitialized ready_service \<and> browser ready_service \<noteq> None
   \<and> newPage (page_timeout 7) = Inr 7 \<and> page_close (page_timeout 7) = Inr ()
   \<and> generateScreenshot (page_timeout 7) ready_service ''<p>Hello</p>'' ''body{color:red}''
         default_options
       = (Inl (Error ''Navigation timeout of 30000 ms exceeded''),
          [PageOpened 7, PageClosed 7])
   \<and> open_pages_after
         (snd (generateScreenshot (page_timeout 7) ready_service ''<p>Hello</p>''
                 ''body{color:red}'' default_options)) [3, 4]
       = [3, 4]"
proof -
  have r: "isInitialized ready_service" "browser ready_service \<noteq> None"
    by (simp_all add: ready_service_def)
  have p: "newPage (page_timeout 7) = Inr 7" "page_close (page_timeout 7) = Inr ()"
    "setViewport (page_timeout 7) = (\<lambda>v. Inr ())"
    "setContent (page_timeout 7)
       = (\<lambda>document timeout. Inl (Error ''Navigation timeout of 30000 ms exceeded''))"
    by (simp_all add: page_timeout_def page_ok_def)
  show ?thesis
    using C3_capture_closes_its_page [OF r, of "page_timeout 7" "''<p>Hello</p>''"
        "''body{color:red}''" default_options "[3, 4]"] r
    by (simp add: p prod_eq_iff open_pages_after_def)
qed

text \<open>Two calls on a ready service where the claim as written fails: the browser
  refuses to open a page, so that the call opens none; and the close of the page throws,
  so that the page stays open when the call rethrows.\<close>

theorem C3_no_page_opened_counterexample:
  "isInitialized ready_service \<and> browser ready_service \<noteq> None
   \<and> generateScreenshot ((page_ok 7)\<lparr>newPage := Inl (Error ''Target closed'')\<rparr>) ready_service
         ''<p>Hello</p>'' [] default_options
       = (Inl (Error ''Target closed''), [])
   \<and> pages_opened
         (snd (generateScreenshot ((page_ok 7)\<lparr>newPage := Inl (Error ''Target closed'')\<rparr>)
                 ready_service ''<p>Hello</p>'' [] default_options))
       = []
   \<and> open_pages_after
         (snd (generateScreenshot ((page_ok 7)\<lparr>page_close := Inl (Error ''Protocol error'')\<rparr>)
                 ready_service ''<p>Hello</p>'' [] default_options)) []
       = [7]"
  by (simp add: generateScreenshot_def ready_service_def page_ok_def Let_def
        open_pages_after_def)

section \<open>Render engine: responsive captures\<close>

text \<open>One turn of the loop: whatever the capture answers, the device gets its entry
  and the loop goes on with the remaining devices.\<close>

lemma responsive_loop_step:
  "responsive_loop encode envs s html css ((device, v) # rest) screenshots events =
     responsive_loop encode envs s html css rest
       (object_set screenshots device (device_entry encode (envs device) s html css v))
       (events @ snd (generateScreenshotDataUrl encode (envs device) s html css
                        (viewport_options v)))"
proof (cases "generateScreenshotDataUrl encode (envs device) s html css (viewport_options v)")
  case (Pair r evs)
  then show ?thesis by (cases r) (simp_all add: device_entry_def)
qed

lemma responsive_result:
  "generateResponsiveScreenshots encode envs s html css =
     (Inr [(''desktop'', device_entry encode (envs ''desktop'') s html css
                         \<lparr>vp_width = 1200, vp_height = 800, vp_deviceScaleFactor = 1\<rparr>),
           (''tablet'', device_entry encode (envs ''tablet'') s html css
                         \<lparr>vp_width = 768, vp_height = 1024, vp_deviceScaleFactor = 2\<rparr>),
           (''mobile'', device_entry encode (envs ''mobile'') s html css
                         \<lparr>vp_width = 375, vp_height = 667, vp_deviceScaleFactor = 2\<rparr>)],
      snd (generateScreenshotDataUrl encode (envs ''desktop'') s html css
            (viewport_options \<lparr>vp_width = 1200, vp_height = 800, vp_deviceScaleFactor = 1\<rparr>))
      @ snd (generateScreenshotDataUrl encode (envs ''tablet'') s html css
            (viewport_options \<lparr>vp_width = 768, vp_height = 1024, vp_deviceScaleFactor = 2\<rparr>))
      @ snd (generateScreenshotDataUrl encode (envs ''mobile'') s html css
            (viewport_options \<lparr>vp_width = 375, vp_height = 667, vp_deviceScaleFactor = 2\<rparr>)))"
  unfolding generateResponsiveScreenshots_def viewports_def
  by (simp add: responsive_loop_step del: responsive_loop.simps(2))

lemma device_entry_None:
  "(device_entry encode env s html css v = None)
     = (\<exists>e. fst (generateScreenshotDataUrl encode env s html css (viewport_options v)) = Inl e)"
  by (simp add: device_entry_def split: sum.splits)

text \<open>
  Claim C5. For every document and style sheet, whatever the service's state and
  whatever the pages answer, \<open>generateResponsiveScreenshots\<close> returns (it does not
  throw) a record with exactly the keys \<open>desktop\<close>, \<open>tablet\<close> and \<open>mobile\<close>, in this
  order. Each of the three captures is made, in its own page; the entry of a device is
  \<open>null\<close> exactly when the capture of that device throws, and the data URL of its
  capture otherwise. In particular, when the tablet capture throws and the two others
  succeed, the desktop and mobile entries are not \<open>null\<close> and the tablet entry is.
\<close>

theorem C5_responsive_partial_results:
  "fst (generateResponsiveScreenshots encode envs s html css) =
     Inr [(''desktop'', device_entry encode (envs ''desktop'') s html css
                         \<lparr>vp_width = 1200, vp_height = 800, vp_deviceScaleFactor = 1\<rparr>),
          (''tablet'', device_entry encode (envs ''tablet'') s html css
                         \<lparr>vp_width = 768, vp_height = 1024, vp_deviceScaleFactor = 2\<rparr>),
          (''mobile'', device_entry encode (envs ''mobile'') s html css
                         \<lparr>vp_width = 375, vp_height = 667, vp_deviceScaleFactor = 2\<rparr>)]
   \<and> snd (generateResponsiveScreenshots encode envs s html css) =
       snd (generateScreenshotDataUrl encode (envs ''desktop'') s html css
              (viewport_options \<lparr>vp_width = 1200, vp_height = 800, vp_deviceScaleFactor = 1\<rparr>))
       @ snd (generateScreenshotDataUrl encode (envs ''tablet'') s html css
              (viewport_options \<lparr>vp_width = 768, vp_height = 1024, vp_deviceScaleFactor = 2\<rparr>))
       @ snd (generateScreenshotDataUrl encode (envs ''mobile'') s html css
              (viewport_options \<lparr>vp_width = 375, vp_height = 667, vp_deviceScaleFactor = 2\<rparr>))
   \<and> (device_entry encode (envs device) s html css v = None)
       = (\<exists>e. fst (generateScreenshotDataUrl encode (envs device) s html css
                      (viewport_options v)) = Inl e)
   \<and> (fst (generateScreenshotDataUrl encode (envs ''desktop'') s html css
              (viewport_options \<lparr>vp_width = 1200, vp_height = 800, vp_deviceScaleFactor = 1\<rparr>))
         = Inr desktop_url
       \<and> fst (generateScreenshotDataUrl encode (envs ''tablet'') s html css
              (viewport_options \<lparr>vp_width = 768, vp_height = 1024, vp_deviceScaleFactor = 2\<rparr>))
         = Inl tablet_error
       \<and> fst (generateScreenshotDataUrl encode (envs ''mobile'') s html css
              (viewport_options \<lparr>vp_width = 375, vp_height = 667, vp_deviceScaleFactor = 2\<rparr>))
         = Inr mobile_url
       \<longrightarrow> fst (generateResponsiveScreenshots encode envs s html css) =
             Inr [(''desktop'', Some desktop_url), (''tablet'', None),
                  (''mobile'', Some mobile_url)])"
  using device_entry_None [of encode "envs device" s html css v]
  by (simp add: responsive_result device_entry_def)

theorem C5_responsive_partial_results_witness:
  "fst (generateScreenshotDataUrl (\<lambda>shot. shot) (page_ok 5) ready_service ''<p>Hello</p>'' []
          (viewport_options \<lparr>vp_width = 1200, vp_height = 800, vp_deviceScaleFactor = 1\<rparr>))
     = Inr ''data:image/png;base64,iVBORw0KGgo=''
   \<and> fst (generateScreenshotDataUrl (\<lambda>shot. shot) (page_timeout 6) ready_service
          ''<p>Hello</p>'' []
          (viewport_options \<lparr>vp_width = 768, vp_height = 1024, vp_deviceScaleFactor = 2\<rparr>))
     = Inl (Error ''Navigation timeout of 30000 ms exceeded'')
   \<and> generateResponsiveScreenshots (\<lambda>shot. shot)
         (\<lambda>device. if device = ''tablet'' then page_timeout 6 else page_ok 5)
         ready_service ''<p>Hello</p>'' []
       = (Inr [(''desktop'', Some ''data:image/png;base64,iVBORw0KGgo=''),
               (''tablet'', None),
               (''mobile'', Some ''data:image/png;base64,iVBORw0KGgo='')],
          [PageOpened 5, PageClosed 5, PageOpened 6, PageClosed 6, PageOpened 5, PageClosed 5])"
proof -
  have ok: "generateScreenshotDataUrl (\<lambda>shot. shot) (page_ok 5) ready_service ''<p>Hello</p>'' []
          (viewport_options v)
        = (Inr ''data:image/png;base64,iVBORw0KGgo='', [PageOpened 5, PageClosed 5])" for v
    by (simp add: generateScreenshotDataUrl_def generateScreenshot_def ready_service_def
          page_ok_def viewport_options_def Let_def or_default_def truthy_string_def)
  have bad: "generateScreenshotDataUrl (\<lambda>shot. shot) (page_timeout 6) ready_service
          ''<p>Hello</p>'' [] (viewport_options v)
        = (Inl (Error ''Navigation timeout of 30000 ms exceeded''),
           [PageOpened 6, PageClosed 6])" for v
    by (simp add: generateScreenshotDataUrl_def generateScreenshot_def ready_service_def
          page_timeout_def page_ok_def viewport_options_def Let_def or_default_def)
  show ?thesis
    using C5_responsive_partial_results [of "\<lambda>shot. shot"
        "\<lambda>device. if device = ''tablet'' then page_timeout 6 else page_ok 5"
        ready_service "''<p>Hello</p>''" "[]" "''tablet''"
        "\<lparr>vp_width = 768, vp_height = 1024, vp_deviceScaleFactor = 2\<rparr>"
        "''data:image/png;base64,iVBORw0KGgo=''"
        "Error ''Navigation timeout of 30000 ms exceeded''"
        "''data:image/png;base64,iVBORw0KGgo=''"]
    by (simp add: ok bad prod_eq_iff device_entry_def)
qed

section \<open>Render engine: life cycle\<close>

















section \<open>Render engine: the document\<close>

lemma js_startsWith_length: "js_startsWith s pat \<Longrightarrow> length pat \<le> length s"
  by (induction s pat rule: js_startsWith.induct) simp_all

lemma js_startsWith_split: "js_startsWith s pat \<Longrightarrow> s = pat @ drop (length pat) s"
  by (induction s pat rule: js_startsWith.induct) simp_all

lemma js_startsWith_extend: "js_startsWith s pat \<Longrightarrow> js_startsWith (s @ rest) pat"
  by (induction s pat rule: js_startsWith.induct) simp_all

lemma js_includes_length: "js_includes s pat \<Longrightarrow> length pat \<le> length s"
  by (induction s) (auto dest: js_startsWith_length)

text \<open>\<open>split_first\<close> cuts the string at an occurrence of the pattern, which is the first
  one; it finds one exactly when \<open>includes\<close> is true.\<close>

lemma split_first_parts:
  "split_first s pat = Some (pre, post) \<Longrightarrow> s = pre @ pat @ post"
proof (induction s arbitrary: pre)
  case Nil
  then show ?case by (simp split: if_splits)
next
  case (Cons c cs)
  show ?case
  proof (cases "js_startsWith (c # cs) pat")
    case True
    with Cons.prems have "pre = []" "post = drop (length pat) (c # cs)" by simp_all
    then show ?thesis using js_startsWith_split [OF True] by simp
  next
    case False
    with Cons.prems obtain pre' where "split_first cs pat = Some (pre', post)" "pre = c # pre'"
      by (auto split: prod.splits)
    then show ?thesis using Cons.IH by simp
  qed
qed

lemma split_first_includes: "(split_first s pat \<noteq> None) = js_includes s pat"
  by (induction s) auto

lemma split_first_earliest:
  "split_first s pat = Some (pre, post) \<Longrightarrow> pat \<noteq> [] \<Longrightarrow>
     \<not> js_includes (pre @ butlast pat) pat"
proof (induction s arbitrary: pre)
  case Nil
  then show ?case by (simp split: if_splits)
next
  case (Cons c cs)
  show ?case
  proof (cases "js_startsWith (c # cs) pat")
    case True
    with Cons.prems have "pre = []" by simp
    moreover have "length (butlast pat) < length pat"
      using Cons.prems(2) by (cases pat) simp_all
    then have "\<not> js_includes (butlast pat) pat"
      using js_includes_length [of "butlast pat" pat] by auto
    ultimately show ?thesis by simp
  next
    case False
    with Cons.prems obtain pre' where
      rest: "split_first cs pat = Some (pre', post)" and pre: "pre = c # pre'"
      by (auto split: prod.splits)
    have "cs = pre' @ pat @ post" using rest by (rule split_first_parts)
    then have whole: "c # cs = (c # pre' @ butlast pat) @ (last pat # post)"
      using Cons.prems(2) by simp
    have "\<not> js_startsWith (c # pre' @ butlast pat) pat"
    proof
      assume "js_startsWith (c # pre' @ butlast pat) pat"
      then have "js_startsWith ((c # pre' @ butlast pat) @ (last pat # post)) pat"
        by (rule js_startsWith_extend)
      then show False using False whole by simp
    qed
    moreover have "\<not> js_includes (pre' @ butlast pat) pat"
      using rest Cons.prems(2) by (rule Cons.IH)
    ultimately show ?thesis by (simp add: pre)
  qed
qed

text \<open>A replacement text with none of the four patterns is inserted as it is.\<close>

lemma get_substitution_plain:
  "\<not> has_replacement_pattern t \<Longrightarrow> get_substitution matched pre post t = t"
  by (induction matched pre post t rule: get_substitution.induct) auto

lemma has_replacement_pattern_append:
  "has_replacement_pattern (xs @ ys) =
     (has_replacement_pattern xs \<or> has_replacement_pattern ys
      \<or> (xs \<noteq> [] \<and> ys \<noteq> [] \<and> last xs = CHR ''$''
          \<and> hd ys \<in> {CHR ''$'', CHR ''&'', CHR 0x60, CHR 0x27}))"
proof (induction xs rule: has_replacement_pattern.induct)
  case 1
  then show ?case by simp
next
  case (2 c)
  then show ?case by (cases ys) auto
next
  case (3 c d r)
  then show ?case by auto
qed

lemma style_block_plain:
  "\<not> has_replacement_pattern css \<Longrightarrow>
     \<not> has_replacement_pattern (''<style>'' @ css @ ''</style></head>'')"
  unfolding has_replacement_pattern_append by simp

lemma js_replace_plain:
  "split_first s pat = Some (pre, post) \<Longrightarrow> \<not> has_replacement_pattern t \<Longrightarrow>
     js_replace s pat t = pre @ t @ post"
  by (simp add: js_replace_def get_substitution_plain)

lemma createCompleteHtml_fragment:
  "\<not> js_includes html ''<!DOCTYPE html>'' \<Longrightarrow> \<not> js_includes html ''<html'' \<Longrightarrow>
     createCompleteHtml html css =
       document_head_open @ style_block css @ ''\<newline>    '' @ utility_stylesheet_link
       @ document_body_open @ html @ document_close"
  by (simp add: createCompleteHtml_def document_head_open_def style_block_def
        utility_stylesheet_link_def document_body_open_def document_close_def)

lemma createCompleteHtml_complete:
  assumes doc: "js_includes html ''<!DOCTYPE html>'' \<or> js_includes html ''<html''"
    and head: "js_includes html ''</head>''"
    and css: "css \<noteq> []"
    and plain: "\<not> has_replacement_pattern css"
  shows "\<exists>pre post. html = pre @ ''</head>'' @ post
           \<and> \<not> js_includes (pre @ ''</head'') ''</head>''
           \<and> createCompleteHtml html css
               = pre @ ''<style>'' @ css @ ''</style>'' @ ''</head>'' @ post"
proof -
  from head obtain pre post where sp: "split_first html ''</head>'' = Some (pre, post)"
    using split_first_includes [of html "''</head>''"] by auto
  have parts: "html = pre @ ''</head>'' @ post"
    using sp by (rule split_first_parts)
  have "\<not> js_includes (pre @ butlast ''</head>'') ''</head>''"
    using sp by (rule split_first_earliest) simp
  then have first: "\<not> js_includes (pre @ ''</head'') ''</head>''" by simp
  have "createCompleteHtml html css
          = js_replace html ''</head>'' (''<style>'' @ css @ ''</style></head>'')"
    using doc head css by (auto simp: createCompleteHtml_def)
  also have "\<dots> = pre @ (''<style>'' @ css @ ''</style></head>'') @ post"
    using sp style_block_plain [OF plain] by (rule js_replace_plain)
  finally have result: "createCompleteHtml html css
      = pre @ ''<style>'' @ css @ ''</style>'' @ ''</head>'' @ post"
    by simp
  show ?thesis
    by (rule exI [of _ pre], rule exI [of _ post]) (use parts first result in simp)
qed

lemma js_includes_skip: "js_includes rest p \<Longrightarrow> js_includes (pre @ rest) p"
  by (induction pre) simp_all

lemma fragment_contains:
  assumes "\<not> js_includes html ''<!DOCTYPE html>''" and "\<not> js_includes html ''<html''"
  shows "js_includes (createCompleteHtml html css) html"
    and "js_includes (createCompleteHtml html css) utility_stylesheet_link"
    and "css \<noteq> [] \<Longrightarrow> js_includes (createCompleteHtml html css) (''<style>'' @ css @ ''</style>'')"
proof -
  note shape = createCompleteHtml_fragment [OF assms, of css]
  show "js_includes (createCompleteHtml html css) html"
    unfolding shape by (simp add: js_includes_skip js_includes_prefix)
  show "js_includes (createCompleteHtml html css) utility_stylesheet_link"
    unfolding shape by (simp add: js_includes_skip js_includes_prefix)
  assume "css \<noteq> []"
  then have block: "style_block css = ''<style>'' @ css @ ''</style>''"
    by (simp add: style_block_def)
  have "js_includes (createCompleteHtml html css) (style_block css)"
    unfolding shape by (simp add: js_includes_skip js_includes_prefix)
  then show "js_includes (createCompleteHtml html css) (''<style>'' @ css @ ''</style>'')"
    unfolding block .
qed

text \<open>
  Claim C6, as the code has it. A text with neither the doctype \<open><!DOCTYPE html>\<close> nor
  an \<open><html\<close> tag is wrapped in the boilerplate document: its head holds the link to
  the default utility style sheet and, when the css is not empty, a style block with
  the css as given (no style block for an empty css); its body holds the text as
  given. A complete document that contains \<open></head>\<close>, with a css that is not empty
  and holds none of the replacement patterns \<open>$$\<close>, \<open>$&\<close>, \<open>$`\<close>, \<open>$'\<close>, is returned
  with the style block inserted immediately before its first \<open></head>\<close> and with
  nothing else changed.
\<close>

theorem C6_document_shape:
  "(\<not> js_includes html ''<!DOCTYPE html>'' \<and> \<not> js_includes html ''<html'' \<longrightarrow>
      createCompleteHtml html css =
        document_head_open @ style_block css @ ''\<newline>    '' @ utility_stylesheet_link
        @ document_body_open @ html @ document_close
      \<and> js_includes (createCompleteHtml html css) html
      \<and> js_includes (createCompleteHtml html css) utility_stylesheet_link
      \<and> (css \<noteq> [] \<longrightarrow>
            js_includes (createCompleteHtml html css) (''<style>'' @ css @ ''</style>''))
      \<and> (style_block css = [] \<longleftrightarrow> css = []))
   \<and> ((js_includes html ''<!DOCTYPE html>'' \<or> js_includes html ''<html'')
        \<and> js_includes html ''</head>'' \<and> css \<noteq> [] \<and> \<not> has_replacement_pattern css \<longrightarrow>
        (\<exists>pre post. html = pre @ ''</head>'' @ post
           \<and> \<not> js_includes (pre @ ''</head'') ''</head>''
           \<and> createCompleteHtml html css
               = pre @ ''<style>'' @ css @ ''</style>'' @ ''</head>'' @ post))"
proof (intro conjI impI)
  assume frag: "\<not> js_includes html ''<!DOCTYPE html>'' \<and> \<not> js_includes html ''<html''"
  then have f1: "\<not> js_includes html ''<!DOCTYPE html>''" and f2: "\<not> js_includes html ''<html''"
    by (rule conjunct1, rule conjunct2)
  show "createCompleteHtml html css =
        document_head_open @ style_block css @ ''\<newline>    '' @ utility_stylesheet_link
        @ document_body_open @ html @ document_close"
    using f1 f2 by (rule createCompleteHtml_fragment)
  show "js_includes (createCompleteHtml html css) html"
    using f1 f2 by (rule fragment_contains(1))
  show "js_includes (createCompleteHtml html css) utility_stylesheet_link"
    using f1 f2 by (rule fragment_contains(2))
  show "js_includes (createCompleteHtml html css) (''<style>'' @ css @ ''</style>'')"
    if "css \<noteq> []"
    using f1 f2 that by (rule fragment_contains(3))
  show "style_block css = [] \<longleftrightarrow> css = []"
    by (simp add: style_block_def)
next
  assume c: "(js_includes html ''<!DOCTYPE html>'' \<or> js_includes html ''<html'')
        \<and> js_includes html ''</head>'' \<and> css \<noteq> [] \<and> \<not> has_replacement_pattern css"
  then have "js_includes html ''<!DOCTYPE html>'' \<or> js_includes html ''<html''"
    and "js_includes html ''</head>''" and "css \<noteq> []" and "\<not> has_replacement_pattern css"
    by simp_all
  then show "\<exists>pre post. html = pre @ ''</head>'' @ post
           \<and> \<not> js_includes (pre @ ''</head'') ''</head>''
           \<and> createCompleteHtml html css
               = pre @ ''<style>'' @ css @ ''</style>'' @ ''</head>'' @ post"
    by (rule createCompleteHtml_complete)
qed

theorem C6_document_shape_witness:
  "\<not> js_includes hello_fragment ''<!DOCTYPE html>'' \<and> \<not> js_includes hello_fragment ''<html''
   \<and> red_css \<noteq> [] \<and> \<not> has_replacement_pattern red_css
   \<and> js_includes (createCompleteHtml hello_fragment red_css) (''<style>'' @ red_css @ ''</style>'')
   \<and> js_includes (createCompleteHtml hello_fragment red_css) hello_fragment
   \<and> js_includes shop_document ''<html'' \<and> js_includes shop_document ''</head>''
   \<and> (\<exists>pre post. shop_document = pre @ ''</head>'' @ post
         \<and> \<not> js_includes (pre @ ''</head'') ''</head>''
         \<and> createCompleteHtml shop_document red_css
             = pre @ ''<style>'' @ red_css @ ''</style>'' @ ''</head>'' @ post)
   \<and> createCompleteHtml shop_document red_css
       = ''<html><head><title>Shop</title><style>body{color:red}</style></head><body></body></html>''"
proof -
  have f: "\<not> js_includes hello_fragment ''<!DOCTYPE html>'' \<and> \<not> js_includes hello_fragment ''<html''"
    by (simp add: hello_fragment_def)
  have c: "red_css \<noteq> []" and p: "\<not> has_replacement_pattern red_css"
    by (simp_all add: red_css_def)
  have d1: "js_includes shop_document ''<html''" and d2: "js_includes shop_document ''</head>''"
    by (simp_all add: shop_document_def)
  have v: "createCompleteHtml shop_document red_css
       = ''<html><head><title>Shop</title><style>body{color:red}</style></head><body></body></html>''"
    by (simp add: createCompleteHtml_def js_replace_def shop_document_def red_css_def)
  note thm1 = C6_document_shape [of hello_fragment red_css, THEN conjunct1, THEN mp, OF f]
  note thm2 = C6_document_shape [of shop_document red_css, THEN conjunct2, THEN mp]
  have a1: "js_includes (createCompleteHtml hello_fragment red_css) hello_fragment"
    by (rule thm1 [THEN conjunct2, THEN conjunct1])
  have a2: "js_includes (createCompleteHtml hello_fragment red_css) (''<style>'' @ red_css @ ''</style>'')"
    by (rule thm1 [THEN conjunct2, THEN conjunct2, THEN conjunct2, THEN conjunct1, THEN mp, OF c])
  have b: "\<exists>pre post. shop_document = pre @ ''</head>'' @ post
         \<and> \<not> js_includes (pre @ ''</head'') ''</head>''
         \<and> createCompleteHtml shop_document red_css
             = pre @ ''<style>'' @ red_css @ ''</style>'' @ ''</head>'' @ post"
    by (rule thm2) (use d1 d2 c p in simp)
  show ?thesis
    by (intro conjI) (use f in simp, use f in simp, rule c, rule p, rule a2, rule a1, rule d1,
        rule d2, rule b, rule v)
qed

text \<open>Two inputs where the claim as written fails: a fragment with an empty css gets no
  style block, and a css that holds the replacement pattern \<open>$$\<close> is not inserted as
  given (one dollar sign is lost).\<close>

theorem C6_style_block_counterexample:
  \<open>\<not> js_includes ''<p>Hello</p>'' ''<!DOCTYPE html>'' \<and> \<not> js_includes ''<p>Hello</p>'' ''<html''
   \<and> \<not> js_includes (createCompleteHtml ''<p>Hello</p>'' []) ''<style>''
   \<and> js_includes ''<html><head></head><body></body></html>'' ''<html''
   \<and> js_includes ''<html><head></head><body></body></html>'' ''</head>''
   \<and> createCompleteHtml ''<html><head></head><body></body></html>'' ''a::after{content:"$$"}''
       = ''<html><head><style>a::after{content:"$"}</style></head><body></body></html>''
   \<and> createCompleteHtml ''<html><head></head><body></body></html>'' ''a::after{content:"$$"}''
       \<noteq> ''<html><head><style>a::after{content:"$$"}</style></head><body></body></html>''\<close>
  by (simp add: createCompleteHtml_def js_replace_def)

section \<open>The empty color scheme\<close>

lemma truthy_string_empty: "truthy_string (Some []) = truthy_string None"
  by (simp add: truthy_string_def)

lemma createHomepagePrompt_empty:
  "createHomepagePrompt name info recs content style booking (Some [])
     = createHomepagePrompt name info recs content style booking None"
proof (cases info)
  case None
  then show ?thesis by (simp add: createHomepagePrompt_def)
next
  case (Some i)
  then show ?thesis by (simp add: prompt_sections)
qed

lemma generateCustomCSS_empty:
  "generateCustomCSS info style (Some []) = generateCustomCSS info style None"
  unfolding generateCustomCSS_def by (simp only: getBaseColors_empty)

lemma generateHomepage_empty:
  "generateHomepage env complete (request\<lparr>req_colorScheme := Some []\<rparr>)
     = generateHomepage env complete (request\<lparr>req_colorScheme := None\<rparr>)"
  by (simp add: generateHomepage_def generateHomepageCode_def createHomepagePrompt_empty
        generateCustomCSS_empty Let_def cong: sum.case_cong)

text \<open>
  Claim C10. On the generation interface, the empty string as color scheme gives the
  result that \<open>null\<close> gives, for every request, environment and completion provider.
  The palette of the custom style sheet is the palette of the industry (for
  \<open>healthcare\<close>, not the fixed palette of a supplied scheme), the style sheet is the
  one generated for \<open>null\<close>, and the prompt is the prompt for \<open>null\<close>, whose color-scheme
  clause is empty.
\<close>

theorem C10_empty_color_scheme:
  "generateHomepage env complete (request\<lparr>req_colorScheme := Some []\<rparr>)
     = generateHomepage env complete (request\<lparr>req_colorScheme := None\<rparr>)
   \<and> getBaseColors (Some []) ind = getBaseColors None ind
   \<and> getBaseColors (Some []) ''healthcare''
       = Own \<lparr>primary = ''#10B981'', secondary = ''#059669'', accent = ''#3B82F6''\<rparr>
   \<and> generateCustomCSS (Some info) style (Some [])
       = Inr (custom_css (bi_name info) (getBaseColors None (bi_industry info)))
   \<and> generateCustomCSS (Some info) style (Some []) = generateCustomCSS (Some info) style None
   \<and> createHomepagePrompt name (Some info) recs content style booking (Some [])
       = createHomepagePrompt name (Some info) recs content style booking None
   \<and> createHomepagePrompt name (Some info) recs content style booking (Some [])
       = Inr (spec_prompt name info recs style booking None)
   \<and> color_clause None = []"
  using generateCustomCSS_text [OF getBaseColors_defined, where cs = "Some []" and info = info
      and style = style]
  by (simp add: generateHomepage_empty getBaseColors_empty getBaseColors_healthcare
        generateCustomCSS_empty createHomepagePrompt_empty prompt_sections color_clause_def)

end
